theory Spec2Isabelle
  imports Main "HOL-Library.Word" "HOL-Library.Sublist"
begin

section \<open>Data model\<close>

text \<open>
  The program is a single Go file, \<^verbatim>\<open>console-go/main.go\<close>. Go strings are byte
  sequences, modelled as \<^typ>\<open>string\<close>; a \<^verbatim>\<open>[]byte\<close> is modelled the same way.
\<close>

type_synonym bytes = string

definition protocolID :: string where
  "protocolID = ''/p2pchat/1.0.0''"

definition dhtMsgKeyPrefix :: string where
  "dhtMsgKeyPrefix = ''/p2pchat/messages/''"

definition identityFile :: string where
  "identityFile = ''p2pchat_id.key''"

text \<open>\<^verbatim>\<open>type Message struct { From string; When int64; Body string }\<close>\<close>

record message =
  From :: string
  When :: "64 word"
  Body :: string

text \<open>
  Go's \<^verbatim>\<open>error\<close> values, by the dynamic type or sentinel that the program can tell
  apart: \<^verbatim>\<open>io.EOF\<close>, \<^verbatim>\<open>routing.ErrNotFound\<close>, \<^verbatim>\<open>peer.ErrInvalidAddr\<close>, the errors of
  \<^verbatim>\<open>encoding/json\<close>, any other failure of a collaborator (with its text), and an error
  wrapped by \<^verbatim>\<open>fmt.Errorf("...%w", err)\<close>.
\<close>

datatype error =
    EOF
  | ErrNotFound
  | ErrInvalidAddr
  | JSONError string
  | Failure string
  | Wrapped string error

text \<open>What the program writes to standard output, one constructor per print statement.\<close>

datatype stdout =
    PrintStreamReadErr error
  | PrintInvalidMessage string string
  | PrintMessage message
  | PrintNoListenAddrs
  | PrintInvite string
  | PrintShareHint
  | PrintConnected string
  | PrintSent
  | PrintStored
  | PrintFetchedCount nat
  | PrintFetchedMessage nat message

section \<open>Collaborators\<close>

subsection \<open>encoding/json\<close>

text \<open>
  The JSON library is not part of the repository: it is a parameter of the model.
  \<open>Marshal\<close> and \<open>Unmarshal\<close> are \<^verbatim>\<open>json.Marshal\<close> and \<^verbatim>\<open>json.Unmarshal\<close> at type
  \<^verbatim>\<open>[]Message\<close>; \<open>Unmarshal\<close> returns what the decoder left in the (initially nil) slice
  together with its error, because the decoder may have filled part of the slice when it
  reports an error. \<open>MarshalMessage\<close> and \<open>UnmarshalMessage\<close> are the same functions at
  type \<^verbatim>\<open>Message\<close>.
\<close>

record json =
  Marshal :: "message list \<Rightarrow> bytes"
  Unmarshal :: "bytes \<Rightarrow> message list \<times> string option"
  MarshalMessage :: "message \<Rightarrow> bytes"
  UnmarshalMessage :: "bytes \<Rightarrow> string + message"

subsection \<open>The distributed hash table\<close>

text \<open>
  Modelled from the spec: the key-value collaborator (\<^verbatim>\<open>*kaddht.IpfsDHT\<close>, not part of
  the repository), an opaque service with \<^verbatim>\<open>Get(key) -> blob | NotFound\<close> and
  \<^verbatim>\<open>Put(key, blob) -> ok | Error\<close>. \<open>records\<close> is what the service holds, \<open>faults\<close>
  schedules the outcome of the coming calls (\<open>None\<close>: the call reaches the service,
  \<open>Some e\<close>: the call fails with \<open>e\<close>; no entry left: no failure), and \<open>calls\<close>
  logs every call with its arguments.
\<close>

datatype dht_call = GetCall string | PutCall string bytes

record dht =
  records :: "string \<rightharpoonup> bytes"
  faults :: "error option list"
  calls :: "dht_call list"

definition next_fault :: "error option list \<Rightarrow> error option \<times> error option list" where
  "next_fault fs = (case fs of [] \<Rightarrow> (None, []) | f # fs' \<Rightarrow> (f, fs'))"

definition GetValue :: "dht \<Rightarrow> string \<Rightarrow> (error + bytes) \<times> dht" where
  "GetValue d key =
     (let (f, fs) = next_fault (faults d);
          d' = d\<lparr>faults := fs, calls := calls d @ [GetCall key]\<rparr>
      in case f of
           Some err \<Rightarrow> (Inl err, d')
         | None \<Rightarrow>
             (case records d key of
                None \<Rightarrow> (Inl ErrNotFound, d')
              | Some val \<Rightarrow> (Inr val, d')))"

definition PutValue :: "dht \<Rightarrow> string \<Rightarrow> bytes \<Rightarrow> error option \<times> dht" where
  "PutValue d key val =
     (let (f, fs) = next_fault (faults d);
          d' = d\<lparr>faults := fs, calls := calls d @ [PutCall key val]\<rparr>
      in case f of
           Some err \<Rightarrow> (Some err, d')
         | None \<Rightarrow> (None, d'\<lparr>records := (records d)(key \<mapsto> val)\<rparr>))"

section \<open>The offline mailbox\<close>

text \<open>
  \<^verbatim>\<open>storeOfflineMessage\<close> (main.go, lines 283-300). \<open>now\<close> is the value of
  \<^verbatim>\<open>time.Now().UnixMilli()\<close>. The error of \<^verbatim>\<open>json.Unmarshal\<close> is discarded
  (\<^verbatim>\<open>_ = json.Unmarshal(val, &msgs)\<close>), and so is the one of \<^verbatim>\<open>json.Marshal\<close>.
\<close>

definition storeOfflineMessage ::
  "json \<Rightarrow> 64 word \<Rightarrow> dht \<Rightarrow> string \<Rightarrow> string \<Rightarrow> string \<Rightarrow> error option \<times> stdout list \<times> dht" where
  "storeOfflineMessage J now d recipientPeerID from body =
     (let key = dhtMsgKeyPrefix @ recipientPeerID;
          (got, d1) = GetValue d key;
          msgs = (case got of Inr val \<Rightarrow> fst (Unmarshal J val) | Inl err \<Rightarrow> []);
          msgs' = msgs @ [\<lparr>From = from, When = now, Body = body\<rparr>];
          n = Marshal J msgs';
          (perr, d2) = PutValue d1 key n
      in case perr of
           Some err \<Rightarrow> (Some err, [], d2)
         | None \<Rightarrow> (None, [PrintStored], d2))"

text \<open>The listing printed by \<^verbatim>\<open>fetchOfflineMessages\<close>: the count, then one entry per
  message, numbered from 1.\<close>

definition listing :: "message list \<Rightarrow> stdout list" where
  "listing msgs =
     PrintFetchedCount (length msgs) #
     map (\<lambda>(i, m). PrintFetchedMessage (i + 1) m) (enumerate 0 msgs)"

text \<open>\<^verbatim>\<open>fetchOfflineMessages\<close> (main.go, lines 302-317).\<close>

definition fetchOfflineMessages ::
  "json \<Rightarrow> dht \<Rightarrow> string \<Rightarrow> error option \<times> stdout list \<times> dht" where
  "fetchOfflineMessages J d peerID =
     (let key = dhtMsgKeyPrefix @ peerID;
          (got, d1) = GetValue d key
      in case got of
           Inl err \<Rightarrow> (Some (Wrapped ''no messages or error: '' err), [], d1)
         | Inr val \<Rightarrow>
             (case Unmarshal J val of
                (msgs, Some e) \<Rightarrow> (Some (JSONError e), [], d1)
              | (msgs, None) \<Rightarrow> (None, listing msgs, d1)))"

section \<open>The inbound stream handler\<close>

text \<open>
  \<^verbatim>\<open>strings.TrimSpace\<close> removes the leading and the trailing white space of a string, rune
  by rune, where white space is what \<^verbatim>\<open>unicode.IsSpace\<close> accepts. \<open>spaceRunes\<close> lists the
  UTF-8 encodings of these code points: tab, line feed, vertical tab, form feed, carriage
  return, space, U+0085, U+00A0, U+1680, U+2000 to U+200A, U+2028, U+2029, U+202F, U+205F
  and U+3000. A byte that starts no such encoding is not white space (an invalid byte
  decodes to U+FFFD).
\<close>

definition spaceRunes :: "string list" where
  "spaceRunes =
     [[CHR 0x09], [CHR 0x0A], [CHR 0x0B], [CHR 0x0C], [CHR 0x0D], [CHR 0x20],
      [CHR 0xC2, CHR 0x85], [CHR 0xC2, CHR 0xA0],
      [CHR 0xE1, CHR 0x9A, CHR 0x80],
      [CHR 0xE2, CHR 0x80, CHR 0x80], [CHR 0xE2, CHR 0x80, CHR 0x81],
      [CHR 0xE2, CHR 0x80, CHR 0x82], [CHR 0xE2, CHR 0x80, CHR 0x83],
      [CHR 0xE2, CHR 0x80, CHR 0x84], [CHR 0xE2, CHR 0x80, CHR 0x85],
      [CHR 0xE2, CHR 0x80, CHR 0x86], [CHR 0xE2, CHR 0x80, CHR 0x87],
      [CHR 0xE2, CHR 0x80, CHR 0x88], [CHR 0xE2, CHR 0x80, CHR 0x89],
      [CHR 0xE2, CHR 0x80, CHR 0x8A],
      [CHR 0xE2, CHR 0x80, CHR 0xA8], [CHR 0xE2, CHR 0x80, CHR 0xA9],
      [CHR 0xE2, CHR 0x80, CHR 0xAF], [CHR 0xE2, CHR 0x81, CHR 0x9F],
      [CHR 0xE3, CHR 0x80, CHR 0x80]]"

text \<open>The string without its first rune, when that rune is white space.\<close>

definition dropSpaceRune :: "string \<Rightarrow> string option" where
  "dropSpaceRune s =
     (case find (\<lambda>r. prefix r s) spaceRunes of
        None \<Rightarrow> None
      | Some r \<Rightarrow> Some (drop (length r) s))"

text \<open>The string without its last rune, when that rune is white space.\<close>

definition dropLastSpaceRune :: "string \<Rightarrow> string option" where
  "dropLastSpaceRune s =
     (case find (\<lambda>r. suffix r s) spaceRunes of
        None \<Rightarrow> None
      | Some r \<Rightarrow> Some (take (length s - length r) s))"

function TrimLeft :: "string \<Rightarrow> string" where
  "TrimLeft s = (case dropSpaceRune s of None \<Rightarrow> s | Some s' \<Rightarrow> TrimLeft s')"
  by pat_completeness auto
termination
proof (relation "measure length")
  show "wf (measure length)" by simp
next
  fix s s' :: string
  assume "dropSpaceRune s = Some s'"
  then obtain r where f: "find (\<lambda>r. prefix r s) spaceRunes = Some r" and s': "s' = drop (length r) s"
    by (auto simp add: dropSpaceRune_def split: option.splits)
  from f have "r \<in> set spaceRunes" and "prefix r s"
    by (auto simp add: find_Some_iff)
  then have "r \<noteq> []" and "length r \<le> length s"
    by (auto simp add: spaceRunes_def prefix_length_le)
  with s' show "(s', s) \<in> measure length" by (cases r) auto
qed

function TrimRight :: "string \<Rightarrow> string" where
  "TrimRight s = (case dropLastSpaceRune s of None \<Rightarrow> s | Some s' \<Rightarrow> TrimRight s')"
  by pat_completeness auto
termination
proof (relation "measure length")
  show "wf (measure length)" by simp
next
  fix s s' :: string
  assume "dropLastSpaceRune s = Some s'"
  then obtain r where f: "find (\<lambda>r. suffix r s) spaceRunes = Some r"
    and s': "s' = take (length s - length r) s"
    by (auto simp add: dropLastSpaceRune_def split: option.splits)
  from f have "r \<in> set spaceRunes" and "suffix r s"
    by (auto simp add: find_Some_iff)
  then have "r \<noteq> []" and "length r \<le> length s"
    by (auto simp add: spaceRunes_def suffix_length_le)
  with s' show "(s', s) \<in> measure length" by (cases r) auto
qed

definition TrimSpace :: "string \<Rightarrow> string" where
  "TrimSpace s = TrimRight (TrimLeft s)"

text \<open>
  \<^verbatim>\<open>bufio.Reader.ReadString(delim)\<close> on the bytes that the stream still delivers: the
  bytes up to and including the first delimiter together with the bytes left, or, when
  the stream ends before a delimiter, the bytes read so far and no rest (the call then
  returns the error that ended the stream).
\<close>

fun ReadString :: "char \<Rightarrow> bytes \<Rightarrow> bytes \<times> bytes option" where
  "ReadString delim [] = ([], None)"
| "ReadString delim (c # cs) =
     (if c = delim then ([c], Some cs)
      else (case ReadString delim cs of (line, rest) \<Rightarrow> (c # line, rest)))"

text \<open>
  An inbound stream: the peer at the other end, the bytes it delivers before it ends, and
  the error that ends it (\<open>EOF\<close> for a clean close).
\<close>

record stream =
  remotePeer :: string
  incoming :: bytes
  ending :: error
  closed :: bool

text \<open>The body of the read loop for one line (main.go, lines 92-98).\<close>

definition handleLine :: "json \<Rightarrow> string \<Rightarrow> bytes \<Rightarrow> stdout" where
  "handleLine J peerAddr line =
     (let line' = TrimSpace line
      in case UnmarshalMessage J line' of
           Inl err \<Rightarrow> PrintInvalidMessage peerAddr line'
         | Inr m \<Rightarrow> PrintMessage m)"

text \<open>The read loop of the stream handler (main.go, lines 84-99).\<close>

function readLoop :: "json \<Rightarrow> string \<Rightarrow> bytes \<Rightarrow> error \<Rightarrow> stdout list" where
  "readLoop J peerAddr input err =
     (case ReadString (CHR 0x0A) input of
        (line, None) \<Rightarrow> (if err \<noteq> EOF then [PrintStreamReadErr err] else [])
      | (line, Some rest) \<Rightarrow> handleLine J peerAddr line # readLoop J peerAddr rest err)"
  by pat_completeness auto
termination
proof -
  have shorter: "length rest < length input"
    if "ReadString delim input = (line, Some rest)" for delim input line rest
    using that by (induction input arbitrary: line) (auto split: if_splits prod.splits)
  show ?thesis
    by (relation "measure (\<lambda>(J, peerAddr, input, err). length input)")
      (auto dest: shorter shorter [OF sym])
qed

text \<open>
  The stream handler registered by \<^verbatim>\<open>h.SetStreamHandler\<close> (main.go, lines 80-100): what
  it prints, and the stream as it leaves it (\<^verbatim>\<open>defer s.Close()\<close>).
\<close>

definition streamHandler :: "json \<Rightarrow> stream \<Rightarrow> stdout list \<times> stream" where
  "streamHandler J s =
     (readLoop J (remotePeer s) (incoming s) (ending s), s\<lparr>incoming := [], closed := True\<rparr>)"

declare TrimLeft.simps [simp del] TrimRight.simps [simp del] readLoop.simps [simp del]

section \<open>The host\<close>

subsection \<open>Multiaddresses and peer identifiers\<close>

text \<open>
  A multiaddress (\<^verbatim>\<open>ma.Multiaddr\<close>) is a sequence of components, each a protocol name
  with its value; a peer identifier (\<^verbatim>\<open>peer.ID\<close>) is modelled by its text. The text
  functions of the libraries are parameters of the model: \<open>NewMultiaddr\<close> is
  \<^verbatim>\<open>ma.NewMultiaddr\<close>, \<open>MultiaddrString\<close> is the method \<^verbatim>\<open>String\<close> of a multiaddress
  and \<open>Decode\<close> is \<^verbatim>\<open>peer.Decode\<close>.
\<close>

type_synonym multiaddr = "(string \<times> string) list"

record addressing =
  NewMultiaddr :: "string \<Rightarrow> error + multiaddr"
  MultiaddrString :: "multiaddr \<Rightarrow> string"
  Decode :: "string \<Rightarrow> error + string"

text \<open>\<^verbatim>\<open>peer.AddrInfo\<close>\<close>

record addrinfo =
  ID :: string
  Addrs :: "multiaddr list"

text \<open>
  \<^verbatim>\<open>peer.AddrInfoFromP2pAddr\<close>, as the library documents it: the last component must
  be a \<^verbatim>\<open>/p2p/<id>\<close> component, which gives the identifier; the components before
  it, when there are any, are the one address of the result.
\<close>

definition AddrInfoFromP2pAddr :: "multiaddr \<Rightarrow> error + addrinfo" where
  "AddrInfoFromP2pAddr m =
     (case rev m of
        [] \<Rightarrow> Inl ErrInvalidAddr
      | (proto, val) # transport \<Rightarrow>
          if proto = ''p2p''
          then Inr \<lparr>ID = val, Addrs = (if transport = [] then [] else [rev transport])\<rparr>
          else Inl ErrInvalidAddr)"

subsection \<open>The transport\<close>

text \<open>
  Modelled from the spec: the transport collaborator (\<^verbatim>\<open>host.Host\<close> of libp2p, not part
  of the repository), with its identity, its listen addresses and its peer directory
  (the peerstore: identifier, address and validity of each entry). \<open>netFaults\<close> schedules
  the outcome of the coming calls that go to the network (\<open>Connect\<close>, \<open>NewStream\<close>,
  \<open>Write\<close>), \<open>hostCalls\<close> logs every call, and \<open>opened\<close> counts the streams opened so
  far, which numbers them.
\<close>

datatype ttl = PermanentAddrTTL | TempAddrTTL

datatype host_call =
    AddAddrsCall string "multiaddr list" ttl
  | ConnectCall addrinfo
  | NewStreamCall string string
  | WriteCall nat bytes
  | CloseCall nat

record host =
  hostID :: string
  hostAddrs :: "multiaddr list"
  peerstore :: "(string \<times> multiaddr \<times> ttl) list"
  netFaults :: "error option list"
  hostCalls :: "host_call list"
  opened :: nat

definition AddAddrs :: "host \<Rightarrow> string \<Rightarrow> multiaddr list \<Rightarrow> ttl \<Rightarrow> host" where
  "AddAddrs h p addrs t =
     h\<lparr>peerstore := peerstore h @ map (\<lambda>a. (p, a, t)) addrs,
       hostCalls := hostCalls h @ [AddAddrsCall p addrs t]\<rparr>"

definition Connect :: "host \<Rightarrow> addrinfo \<Rightarrow> error option \<times> host" where
  "Connect h pi =
     (let (f, fs) = next_fault (netFaults h)
      in (f, h\<lparr>netFaults := fs, hostCalls := hostCalls h @ [ConnectCall pi]\<rparr>))"

definition NewStream :: "host \<Rightarrow> string \<Rightarrow> string \<Rightarrow> (error + nat) \<times> host" where
  "NewStream h p proto =
     (let (f, fs) = next_fault (netFaults h);
          h' = h\<lparr>netFaults := fs, hostCalls := hostCalls h @ [NewStreamCall p proto]\<rparr>
      in case f of
           Some err \<Rightarrow> (Inl err, h')
         | None \<Rightarrow> (Inr (opened h), h'\<lparr>opened := opened h + 1\<rparr>))"

definition Write :: "host \<Rightarrow> nat \<Rightarrow> bytes \<Rightarrow> error option \<times> host" where
  "Write h s b =
     (let (f, fs) = next_fault (netFaults h)
      in (f, h\<lparr>netFaults := fs, hostCalls := hostCalls h @ [WriteCall s b]\<rparr>))"

definition Close :: "host \<Rightarrow> nat \<Rightarrow> host" where
  "Close h s = h\<lparr>hostCalls := hostCalls h @ [CloseCall s]\<rparr>"

subsection \<open>Invites and connections\<close>

text \<open>\<^verbatim>\<open>printInvite\<close> (main.go, lines 209-221).\<close>

definition printInvite :: "addressing \<Rightarrow> host \<Rightarrow> stdout list" where
  "printInvite A h =
     (let id = hostID h; addrs = hostAddrs h
      in if length addrs = 0 then [PrintNoListenAddrs]
         else map (\<lambda>a. PrintInvite (MultiaddrString A a @ ''/p2p/'' @ id)) addrs @ [PrintShareHint])"

text \<open>
  \<^verbatim>\<open>connectPeer\<close> (main.go, lines 235-259). When the first parse fails and the text
  contains \<^verbatim>\<open>/p2p/\<close>, the source parses the same text a second time.
\<close>

definition connectPeer :: "addressing \<Rightarrow> host \<Rightarrow> string \<Rightarrow> error option \<times> stdout list \<times> host" where
  "connectPeer A h addrStr =
     (case (case NewMultiaddr A addrStr of
              Inl err \<Rightarrow> (if sublist ''/p2p/'' addrStr then NewMultiaddr A addrStr else Inl err)
            | Inr maddr \<Rightarrow> Inr maddr) of
        Inl err \<Rightarrow> (Some err, [], h)
      | Inr maddr \<Rightarrow>
          (case AddrInfoFromP2pAddr maddr of
             Inl err \<Rightarrow> (Some err, [], h)
           | Inr pi \<Rightarrow>
               (let h1 = AddAddrs h (ID pi) (Addrs pi) PermanentAddrTTL;
                    (cerr, h2) = Connect h1 pi
                in case cerr of
                     Some err \<Rightarrow> (Some err, [], h2)
                   | None \<Rightarrow> (None, [PrintConnected (ID pi)], h2))))"

subsection \<open>Direct messages\<close>

text \<open>\<^verbatim>\<open>sendMessage\<close> (main.go, lines 261-281); \<open>now\<close> is \<^verbatim>\<open>time.Now().UnixMilli()\<close>.
  The deferred \<^verbatim>\<open>s.Close()\<close> runs on both paths that follow the opening of the stream.\<close>

definition sendMessage ::
  "json \<Rightarrow> addressing \<Rightarrow> 64 word \<Rightarrow> host \<Rightarrow> string \<Rightarrow> string \<Rightarrow> error option \<times> stdout list \<times> host" where
  "sendMessage J A now h peerIDStr body =
     (case Decode A peerIDStr of
        Inl err \<Rightarrow> (Some err, [], h)
      | Inr pid \<Rightarrow>
          (case NewStream h pid protocolID of
             (Inl err, h1) \<Rightarrow> (Some err, [], h1)
           | (Inr s, h1) \<Rightarrow>
               (let m = \<lparr>From = hostID h, When = now, Body = body\<rparr>;
                    b = MarshalMessage J m @ [CHR 0x0A];
                    (werr, h2) = Write h1 s b
                in case werr of
                     Some err \<Rightarrow> (Some err, [], Close h2 s)
                   | None \<Rightarrow> (None, [PrintSent], Close h2 s))))"

section \<open>The identity record\<close>

text \<open>
  The key functions of \<^verbatim>\<open>libp2p/core/crypto\<close> are parameters of the model, over any
  type \<open>'k\<close> of private keys: \<open>GenerateKeyPair\<close> is \<^verbatim>\<open>crypto.GenerateKeyPairWithReader\<close>
  for Ed25519 applied to the bytes that \<^verbatim>\<open>rand.Reader\<close> delivers, and \<open>IDFromPrivateKey\<close>
  is the peer identifier that the host derives from its key.
\<close>

record 'k crypto =
  UnmarshalPrivateKey :: "bytes \<Rightarrow> error + 'k"
  MarshalPrivateKey :: "'k \<Rightarrow> error + bytes"
  GenerateKeyPair :: "bytes \<Rightarrow> error + 'k"
  IDFromPrivateKey :: "'k \<Rightarrow> string"

text \<open>
  The file system, as far as the program uses it: the files by path, each with its
  content, its permission bits and whether the process can read it, and whether the
  process can write. \<^verbatim>\<open>os.Stat\<close> succeeds exactly on the paths that have a file.
\<close>

record inode =
  content :: bytes
  mode :: nat
  readable :: bool

record filesystem =
  files :: "string \<rightharpoonup> inode"
  writable :: bool

definition Stat :: "filesystem \<Rightarrow> string \<Rightarrow> error option" where
  "Stat fs path = (case files fs path of None \<Rightarrow> Some (Failure ''no such file or directory'') | Some f \<Rightarrow> None)"

definition ReadFile :: "filesystem \<Rightarrow> string \<Rightarrow> error + bytes" where
  "ReadFile fs path =
     (case files fs path of
        None \<Rightarrow> Inl (Failure ''no such file or directory'')
      | Some f \<Rightarrow> if readable f then Inr (content f) else Inl (Failure ''permission denied''))"

text \<open>\<^verbatim>\<open>os.WriteFile\<close>: a new file gets the permission bits given, an existing file keeps
  its own.\<close>

definition WriteFile :: "filesystem \<Rightarrow> string \<Rightarrow> bytes \<Rightarrow> nat \<Rightarrow> error option \<times> filesystem" where
  "WriteFile fs path b perm =
     (if writable fs
      then (None, fs\<lparr>files := (files fs)(path \<mapsto>
              (case files fs path of
                 None \<Rightarrow> \<lparr>content = b, mode = perm, readable = True\<rparr>
               | Some f \<Rightarrow> f\<lparr>content := b\<rparr>))\<rparr>)
      else (Some (Failure ''read-only file system''), fs))"

text \<open>\<^verbatim>\<open>loadOrCreateIdentity\<close> (main.go, lines 180-207); \<open>0600\<close> in octal is \<open>384\<close>.\<close>

definition loadOrCreateIdentity ::
  "'k crypto \<Rightarrow> filesystem \<Rightarrow> bytes \<Rightarrow> string \<Rightarrow> (error + 'k) \<times> filesystem" where
  "loadOrCreateIdentity K fs random path =
     (if Stat fs path = None
      then (case ReadFile fs path of
              Inl err \<Rightarrow> (Inl err, fs)
            | Inr b \<Rightarrow>
                (case UnmarshalPrivateKey K b of
                   Inl err \<Rightarrow> (Inl err, fs)
                 | Inr priv \<Rightarrow> (Inr priv, fs)))
      else (case GenerateKeyPair K random of
              Inl err \<Rightarrow> (Inl err, fs)
            | Inr priv \<Rightarrow>
                (case MarshalPrivateKey K priv of
                   Inl err \<Rightarrow> (Inl err, fs)
                 | Inr b \<Rightarrow>
                     (case WriteFile fs path b 384 of
                        (Some err, fs') \<Rightarrow> (Inl err, fs')
                      | (None, fs') \<Rightarrow> (Inr priv, fs')))))"

section \<open>Sample data\<close>

text \<open>
  Concrete inputs at which the theorems below are exercised. \<open>sampleJSON\<close> is a fixture
  for the JSON library: its tables list what \<^verbatim>\<open>encoding/json\<close> returns on the
  sample mailboxes and frames used below; outside the tables its decoders report an error
  and its encoders return an empty value. The other fixtures stand in the same way for
  the address and key libraries.
\<close>

definition oldMsg :: message where
  "oldMsg = \<lparr>From = ''PEER-B'', When = 1, Body = ''old''\<rparr>"

definition newMsg :: message where
  "newMsg = \<lparr>From = ''PEER-A'', When = 7, Body = ''hello''\<rparr>"

definition zeroMsg :: message where
  "zeroMsg = \<lparr>From = [], When = 0, Body = []\<rparr>"

definition blobOld :: bytes where
  \<open>blobOld = ''[{"from":"PEER-B","when":1,"body":"old"}]''\<close>

definition blobNew :: bytes where
  \<open>blobNew = ''[{"from":"PEER-A","when":7,"body":"hello"}]''\<close>

definition blobBoth :: bytes where
  \<open>blobBoth = ''[{"from":"PEER-B","when":1,"body":"old"},{"from":"PEER-A","when":7,"body":"hello"}]''\<close>

definition blobMistyped :: bytes where
  \<open>blobMistyped = ''[{"from":"PEER-B","when":1,"body":"old"},{"from":5}]''\<close>

definition blobMistypedNew :: bytes where
  \<open>blobMistypedNew = ''[{"from":"PEER-B","when":1,"body":"old"},{"from":"","when":0,"body":""},{"from":"PEER-A","when":7,"body":"hello"}]''\<close>

definition hiMsg :: message where
  "hiMsg = \<lparr>From = ''PEER-B'', When = 7, Body = ''hi''\<rparr>"

definition frameHi :: bytes where
  \<open>frameHi = ''{"from":"PEER-B","when":7,"body":"hi"}''\<close>

definition frameNew :: bytes where
  \<open>frameNew = ''{"from":"PEER-A","when":7,"body":"hello"}''\<close>

definition sampleMarshal :: "message list \<Rightarrow> bytes" where
  "sampleMarshal ms =
     (if ms = [oldMsg] then blobOld
      else if ms = [newMsg] then blobNew
      else if ms = [oldMsg, newMsg] then blobBoth
      else if ms = [oldMsg, zeroMsg, newMsg] then blobMistypedNew
      else ''[]'')"

definition sampleUnmarshal :: "bytes \<Rightarrow> message list \<times> string option" where
  "sampleUnmarshal b =
     (if b = blobOld then ([oldMsg], None)
      else if b = blobNew then ([newMsg], None)
      else if b = blobBoth then ([oldMsg, newMsg], None)
      else if b = blobMistyped then
        ([oldMsg, zeroMsg],
         Some ''json: cannot unmarshal number into Go struct field Message.from of type string'')
      else if b = blobMistypedNew then ([oldMsg, zeroMsg, newMsg], None)
      else if b = [] then ([], Some ''unexpected end of JSON input'')
      else ([], Some ''invalid character''))"

definition sampleUnmarshalMessage :: "bytes \<Rightarrow> string + message" where
  "sampleUnmarshalMessage b =
     (if b = frameNew then Inr newMsg
      else if b = [] then Inl ''unexpected end of JSON input''
      else Inl ''invalid character'')"

definition sampleJSON :: json where
  "sampleJSON = \<lparr>Marshal = sampleMarshal, Unmarshal = sampleUnmarshal,
     MarshalMessage = (\<lambda>m. if m = newMsg then frameNew else if m = hiMsg then frameHi else ''{}''),
     UnmarshalMessage = sampleUnmarshalMessage\<rparr>"

definition emptyDHT :: dht where
  "emptyDHT = \<lparr>records = Map.empty, faults = [], calls = []\<rparr>"

definition mailboxX :: string where
  "mailboxX = ''/p2pchat/messages/PEER-X''"

definition outageDHT :: dht where
  "outageDHT = \<lparr>records = [mailboxX \<mapsto> blobOld],
     faults = [Some (Failure ''context deadline exceeded'')], calls = []\<rparr>"

definition blobGarbage :: bytes where
  "blobGarbage = ''garbage''"

definition corruptDHT :: dht where
  "corruptDHT = \<lparr>records = [mailboxX \<mapsto> blobGarbage], faults = [], calls = []\<rparr>"

definition mistypedDHT :: dht where
  "mistypedDHT = \<lparr>records = [mailboxX \<mapsto> blobMistyped], faults = [], calls = []\<rparr>"

definition storedDHT :: dht where
  "storedDHT = \<lparr>records = [mailboxX \<mapsto> blobOld], faults = [], calls = []\<rparr>"

definition addrA :: multiaddr where
  "addrA = [(''ip4'', ''127.0.0.1''), (''tcp'', ''4001'')]"

definition inviteA :: string where
  "inviteA = ''/ip4/127.0.0.1/tcp/4001/p2p/PEER-A''"

definition sampleAddressing :: addressing where
  "sampleAddressing =
     \<lparr>NewMultiaddr = (\<lambda>s. if s = inviteA then Inr (addrA @ [(''p2p'', ''PEER-A'')])
                          else Inl (Failure ''failed to parse multiaddr'')),
      MultiaddrString = (\<lambda>m. concat (map (\<lambda>(proto, val). ''/'' @ proto @ ''/'' @ val) m)),
      Decode = (\<lambda>s. if s = ''PEER-A'' \<or> s = ''PEER-B'' then Inr s
                    else Inl (Failure ''failed to parse peer ID''))\<rparr>"

definition hostA :: host where
  "hostA = \<lparr>hostID = ''PEER-A'', hostAddrs = [addrA], peerstore = [], netFaults = [],
     hostCalls = [], opened = 0\<rparr>"

definition hostB :: host where
  "hostB = \<lparr>hostID = ''PEER-B'', hostAddrs = [[(''ip4'', ''127.0.0.1''), (''tcp'', ''4002'')]],
     peerstore = [], netFaults = [], hostCalls = [], opened = 0\<rparr>"

definition hostOffline :: host where
  "hostOffline = hostB\<lparr>netFaults := [Some (Failure ''dial backoff'')]\<rparr>"

definition hostResetting :: host where
  "hostResetting = hostB\<lparr>netFaults := [None, Some (Failure ''stream reset'')]\<rparr>"

definition sampleCrypto :: "string crypto" where
  "sampleCrypto =
     \<lparr>UnmarshalPrivateKey = (\<lambda>b. if prefix ''key:'' b then Inr (drop 4 b)
                                  else Inl (Failure ''malformed key'')),
      MarshalPrivateKey = (\<lambda>k. Inr (''key:'' @ k)),
      GenerateKeyPair = (\<lambda>random. Inr (take 4 random)),
      IDFromPrivateKey = (\<lambda>k. ''PEER-'' @ k)\<rparr>"

definition emptyDisk :: filesystem where
  "emptyDisk = \<lparr>files = Map.empty, writable = True\<rparr>"

section \<open>Properties of the mailbox\<close>

lemmas sample_defs = sampleJSON_def sampleMarshal_def sampleUnmarshal_def
  sampleUnmarshalMessage_def oldMsg_def newMsg_def zeroMsg_def blobOld_def blobNew_def
  blobBoth_def blobMistyped_def blobMistypedNew_def frameNew_def frameHi_def hiMsg_def
  mailboxX_def
  dhtMsgKeyPrefix_def

lemmas dht_defs = GetValue_def PutValue_def next_fault_def Let_def

lemma GetValue_calls: "calls (snd (GetValue d k)) = calls d @ [GetCall k]"
  by (simp add: GetValue_def Let_def split: prod.splits option.splits)

lemma PutValue_calls: "calls (snd (PutValue d k v)) = calls d @ [PutCall k v]"
  by (simp add: PutValue_def Let_def split: prod.splits option.splits)

lemma PutValue_accepted:
  "fst (PutValue d k v) = None \<Longrightarrow> records (snd (PutValue d k v)) = (records d)(k \<mapsto> v)"
  by (simp add: PutValue_def Let_def split: prod.splits option.splits)

lemma store_unfold:
  "storeOfflineMessage J now d r f b =
     (let key = dhtMsgKeyPrefix @ r;
          msgs = (case fst (GetValue d key) of Inr val \<Rightarrow> fst (Unmarshal J val) | Inl err \<Rightarrow> []);
          p = PutValue (snd (GetValue d key)) key (Marshal J (msgs @ [\<lparr>From = f, When = now, Body = b\<rparr>]))
      in (fst p, (if fst p = None then [PrintStored] else []), snd p))"
  by (simp add: storeOfflineMessage_def Let_def split: prod.splits option.splits)

text \<open>
  C3. Whenever the \<^verbatim>\<open>Get\<close> of the mailbox key fails, for whatever reason (not found
  or any other failure), \<^verbatim>\<open>storeOfflineMessage\<close> goes on from the empty sequence: the
  \<^verbatim>\<open>Put\<close> that follows is issued on the same key with the serialization of the one
  new message alone, and when the service accepts it, that blob replaces whatever was
  stored under the key.
\<close>

theorem store_after_failed_get:
  assumes "fst (GetValue d (dhtMsgKeyPrefix @ r)) = Inl e"
    and "storeOfflineMessage J now d r f b = (res, out, d')"
  shows "calls d' = calls d @ [GetCall (dhtMsgKeyPrefix @ r),
            PutCall (dhtMsgKeyPrefix @ r) (Marshal J [\<lparr>From = f, When = now, Body = b\<rparr>])]
         \<and> (res = None \<longrightarrow>
              records d' (dhtMsgKeyPrefix @ r) = Some (Marshal J [\<lparr>From = f, When = now, Body = b\<rparr>]))"
  using assms
  by (auto simp add: store_unfold Let_def PutValue_calls GetValue_calls PutValue_accepted)

theorem store_after_failed_get_witness:
  "fst (GetValue outageDHT (dhtMsgKeyPrefix @ ''PEER-X'')) = Inl (Failure ''context deadline exceeded'')
   \<and> records outageDHT (dhtMsgKeyPrefix @ ''PEER-X'') = Some blobOld
   \<and> fst (storeOfflineMessage sampleJSON 7 outageDHT ''PEER-X'' ''PEER-A'' ''hello'') = None
   \<and> calls (snd (snd (storeOfflineMessage sampleJSON 7 outageDHT ''PEER-X'' ''PEER-A'' ''hello'')))
       = [GetCall (dhtMsgKeyPrefix @ ''PEER-X''), PutCall (dhtMsgKeyPrefix @ ''PEER-X'') blobNew]
   \<and> records (snd (snd (storeOfflineMessage sampleJSON 7 outageDHT ''PEER-X'' ''PEER-A'' ''hello'')))
       (dhtMsgKeyPrefix @ ''PEER-X'') = Some blobNew"
proof -
  let ?s = "storeOfflineMessage sampleJSON 7 outageDHT ''PEER-X'' ''PEER-A'' ''hello''"
  have g: "fst (GetValue outageDHT (dhtMsgKeyPrefix @ ''PEER-X'')) = Inl (Failure ''context deadline exceeded'')"
    by (simp add: outageDHT_def dht_defs)
  have r: "records outageDHT (dhtMsgKeyPrefix @ ''PEER-X'') = Some blobOld"
    by (simp add: outageDHT_def mailboxX_def dhtMsgKeyPrefix_def)
  have s: "?s = (fst ?s, fst (snd ?s), snd (snd ?s))" by simp
  have ok: "fst ?s = None"
    by (simp add: storeOfflineMessage_def outageDHT_def dht_defs)
  have m: "Marshal sampleJSON [\<lparr>From = ''PEER-A'', When = 7, Body = ''hello''\<rparr>] = blobNew"
    by (simp add: sample_defs)
  have c: "calls outageDHT = []" by (simp add: outageDHT_def)
  from store_after_failed_get [OF g s] g r ok m c show ?thesis by simp
qed

lemmas sample_dhts = emptyDHT_def outageDHT_def corruptDHT_def mistypedDHT_def storedDHT_def
  blobGarbage_def

text \<open>
  C1, as stated, fails: with a blob under the mailbox key that does not deserialize,
  \<^verbatim>\<open>storeOfflineMessage\<close> reports no error and overwrites the blob with the
  serialization of the new message alone.
\<close>

theorem store_corrupt_mailbox_counterexample:
  "fst (GetValue corruptDHT (dhtMsgKeyPrefix @ ''PEER-X'')) = Inr blobGarbage
   \<and> Unmarshal sampleJSON blobGarbage = ([], Some ''invalid character'')
   \<and> fst (storeOfflineMessage sampleJSON 7 corruptDHT ''PEER-X'' ''PEER-A'' ''hello'') = None
   \<and> records (snd (snd (storeOfflineMessage sampleJSON 7 corruptDHT ''PEER-X'' ''PEER-A'' ''hello'')))
        (dhtMsgKeyPrefix @ ''PEER-X'') = Some blobNew"
  by (simp add: storeOfflineMessage_def dht_defs sample_defs sample_dhts)

text \<open>
  C1, amended. When the \<^verbatim>\<open>Get\<close> returns a blob that fails to deserialize, the error
  of the decoder is discarded: \<^verbatim>\<open>storeOfflineMessage\<close> goes on with the messages the
  decoder left in the sequence (none when it decoded nothing), appends the new message,
  issues the \<^verbatim>\<open>Put\<close> and returns the outcome of that \<^verbatim>\<open>Put\<close>; a \<^verbatim>\<open>NotFound\<close> result
  yields the empty starting sequence.
\<close>

theorem store_discards_decode_error:
  assumes "(\<exists>val e. fst (GetValue d (dhtMsgKeyPrefix @ r)) = Inr val \<and> Unmarshal J val = (start, Some e))
           \<or> (fst (GetValue d (dhtMsgKeyPrefix @ r)) = Inl ErrNotFound \<and> start = [])"
    and "storeOfflineMessage J now d r f b = (res, out, d')"
  shows "calls d' = calls d @ [GetCall (dhtMsgKeyPrefix @ r),
            PutCall (dhtMsgKeyPrefix @ r) (Marshal J (start @ [\<lparr>From = f, When = now, Body = b\<rparr>]))]
         \<and> (res, d') = PutValue (snd (GetValue d (dhtMsgKeyPrefix @ r))) (dhtMsgKeyPrefix @ r)
                          (Marshal J (start @ [\<lparr>From = f, When = now, Body = b\<rparr>]))
         \<and> out = (if res = None then [PrintStored] else [])"
proof -
  let ?key = "dhtMsgKeyPrefix @ r"
  let ?p = "PutValue (snd (GetValue d ?key)) ?key
              (Marshal J (start @ [\<lparr>From = f, When = now, Body = b\<rparr>]))"
  from assms(1)
  have st: "(case fst (GetValue d ?key) of Inr val \<Rightarrow> fst (Unmarshal J val) | Inl err \<Rightarrow> []) = start"
    by auto
  have e: "storeOfflineMessage J now d r f b = (fst ?p, (if fst ?p = None then [PrintStored] else []), snd ?p)"
    unfolding store_unfold Let_def st by (rule refl)
  have "(fst ?p, (if fst ?p = None then [PrintStored] else []), snd ?p) = (res, out, d')"
    using assms(2) unfolding e .
  then have r: "fst ?p = res" and o: "(if fst ?p = None then [PrintStored] else []) = out"
    and d: "snd ?p = d'"
    by (rule Pair_inject, blast)+
  have c: "calls (snd ?p) = calls d @ [GetCall ?key,
      PutCall ?key (Marshal J (start @ [\<lparr>From = f, When = now, Body = b\<rparr>]))]"
    by (simp add: PutValue_calls GetValue_calls)
  from c show ?thesis unfolding r [symmetric] o [symmetric] d [symmetric] by simp
qed

theorem store_discards_decode_error_witness:
  "fst (GetValue mistypedDHT (dhtMsgKeyPrefix @ ''PEER-X'')) = Inr blobMistyped
   \<and> Unmarshal sampleJSON blobMistyped = ([oldMsg, zeroMsg],
        Some ''json: cannot unmarshal number into Go struct field Message.from of type string'')
   \<and> fst (storeOfflineMessage sampleJSON 7 mistypedDHT ''PEER-X'' ''PEER-A'' ''hello'') = None
   \<and> calls (snd (snd (storeOfflineMessage sampleJSON 7 mistypedDHT ''PEER-X'' ''PEER-A'' ''hello'')))
       = [GetCall (dhtMsgKeyPrefix @ ''PEER-X''),
          PutCall (dhtMsgKeyPrefix @ ''PEER-X'') (Marshal sampleJSON [oldMsg, zeroMsg, newMsg])]
   \<and> fst (snd (storeOfflineMessage sampleJSON 7 mistypedDHT ''PEER-X'' ''PEER-A'' ''hello'')) = [PrintStored]"
proof -
  let ?s = "storeOfflineMessage sampleJSON 7 mistypedDHT ''PEER-X'' ''PEER-A'' ''hello''"
  have g: "fst (GetValue mistypedDHT (dhtMsgKeyPrefix @ ''PEER-X'')) = Inr blobMistyped"
    by (simp add: dht_defs sample_dhts mailboxX_def dhtMsgKeyPrefix_def)
  have u: "Unmarshal sampleJSON blobMistyped = ([oldMsg, zeroMsg],
        Some ''json: cannot unmarshal number into Go struct field Message.from of type string'')"
    by (simp add: sample_defs)
  have s: "?s = (fst ?s, fst (snd ?s), snd (snd ?s))" by simp
  have ok: "fst ?s = None"
    by (simp add: storeOfflineMessage_def dht_defs sample_dhts)
  have c: "calls mistypedDHT = []" by (simp add: sample_dhts)
  have n: "\<lparr>From = ''PEER-A'', When = 7, Body = ''hello''\<rparr> = newMsg" by (simp add: newMsg_def)
  from g u have h: "(\<exists>val e. fst (GetValue mistypedDHT (dhtMsgKeyPrefix @ ''PEER-X'')) = Inr val
        \<and> Unmarshal sampleJSON val = ([oldMsg, zeroMsg], Some e))
      \<or> (fst (GetValue mistypedDHT (dhtMsgKeyPrefix @ ''PEER-X'')) = Inl ErrNotFound \<and> [oldMsg, zeroMsg] = [])"
    by blast
  from store_discards_decode_error [OF h s] g u ok c n show ?thesis by simp
qed

lemma GetValue_answered:
  "fst (next_fault (faults d)) = None \<Longrightarrow> records d k = Some v \<Longrightarrow> fst (GetValue d k) = Inr v"
  by (cases "next_fault (faults d)") (simp add: GetValue_def Let_def)

lemma GetValue_absent:
  "fst (next_fault (faults d)) = None \<Longrightarrow> records d k = None \<Longrightarrow> fst (GetValue d k) = Inl ErrNotFound"
  by (cases "next_fault (faults d)") (simp add: GetValue_def Let_def)

lemma fetch_unfold:
  "fetchOfflineMessages J d p =
     (case fst (GetValue d (dhtMsgKeyPrefix @ p)) of
        Inl err \<Rightarrow> (Some (Wrapped ''no messages or error: '' err), [], snd (GetValue d (dhtMsgKeyPrefix @ p)))
      | Inr val \<Rightarrow>
          (case Unmarshal J val of
             (msgs, Some e) \<Rightarrow> (Some (JSONError e), [], snd (GetValue d (dhtMsgKeyPrefix @ p)))
           | (msgs, None) \<Rightarrow> (None, listing msgs, snd (GetValue d (dhtMsgKeyPrefix @ p)))))"
  by (cases "GetValue d (dhtMsgKeyPrefix @ p)")
    (simp add: fetchOfflineMessages_def Let_def split: sum.splits prod.splits option.splits)

lemma last_listing:
  "last (listing (xs @ [m])) = PrintFetchedMessage (length xs + 1) m"
  by (simp add: listing_def enumerate_append_eq)

text \<open>
  C2, as stated, fails: a mailbox holds one message, the \<^verbatim>\<open>Get\<close> of
  \<^verbatim>\<open>storeOfflineMessage\<close> fails for a reason other than not found, the store succeeds,
  and the fetch that follows lists the new message alone: the earlier entry is dropped.
\<close>

theorem store_then_fetch_after_outage_counterexample:
  "records outageDHT (dhtMsgKeyPrefix @ ''PEER-X'') = Some blobOld
   \<and> Unmarshal sampleJSON blobOld = ([oldMsg], None)
   \<and> fst (storeOfflineMessage sampleJSON 7 outageDHT ''PEER-X'' ''PEER-A'' ''hello'') = None
   \<and> fst (fetchOfflineMessages sampleJSON
         (snd (snd (storeOfflineMessage sampleJSON 7 outageDHT ''PEER-X'' ''PEER-A'' ''hello''))) ''PEER-X'') = None
   \<and> fst (snd (fetchOfflineMessages sampleJSON
         (snd (snd (storeOfflineMessage sampleJSON 7 outageDHT ''PEER-X'' ''PEER-A'' ''hello''))) ''PEER-X''))
       = [PrintFetchedCount 1, PrintFetchedMessage 1 newMsg]
   \<and> listing ([oldMsg] @ [newMsg])
       = [PrintFetchedCount 2, PrintFetchedMessage 1 oldMsg, PrintFetchedMessage 2 newMsg]"
  by (simp add: storeOfflineMessage_def fetchOfflineMessages_def listing_def dht_defs sample_defs
      sample_dhts)

text \<open>
  C2, amended. A successful \<^verbatim>\<open>storeOfflineMessage\<close> whose \<^verbatim>\<open>Get\<close> reported not found
  (the previous sequence is empty) or returned a blob that deserializes without error
  (to the previous sequence), followed at once by a \<^verbatim>\<open>fetchOfflineMessages\<close> whose
  \<^verbatim>\<open>Get\<close> is answered, lists the previous sequence with exactly one new message
  appended at the end, whose body and sender are the ones given, provided the serialized
  new sequence deserializes back to itself. The three calls use the same key, the prefix
  followed by the recipient.
\<close>

theorem store_then_fetch:
  assumes prev: "(fst (GetValue d (dhtMsgKeyPrefix @ X)) = Inl ErrNotFound \<and> prev = [])
           \<or> (\<exists>val. fst (GetValue d (dhtMsgKeyPrefix @ X)) = Inr val \<and> Unmarshal J val = (prev, None))"
    and st: "storeOfflineMessage J now d X A b = (None, out, d')"
    and answered: "fst (next_fault (faults d')) = None"
    and rt: "Unmarshal J (Marshal J (prev @ [\<lparr>From = A, When = now, Body = b\<rparr>]))
               = (prev @ [\<lparr>From = A, When = now, Body = b\<rparr>], None)"
  shows "fst (fetchOfflineMessages J d' X) = None
         \<and> fst (snd (fetchOfflineMessages J d' X)) = listing (prev @ [\<lparr>From = A, When = now, Body = b\<rparr>])
         \<and> last (fst (snd (fetchOfflineMessages J d' X)))
             = PrintFetchedMessage (length prev + 1) \<lparr>From = A, When = now, Body = b\<rparr>
         \<and> calls (snd (snd (fetchOfflineMessages J d' X)))
             = calls d @ [GetCall (dhtMsgKeyPrefix @ X),
                 PutCall (dhtMsgKeyPrefix @ X) (Marshal J (prev @ [\<lparr>From = A, When = now, Body = b\<rparr>])),
                 GetCall (dhtMsgKeyPrefix @ X)]"
proof -
  let ?key = "dhtMsgKeyPrefix @ X"
  let ?m = "\<lparr>From = A, When = now, Body = b\<rparr>"
  let ?blob = "Marshal J (prev @ [?m])"
  let ?p = "PutValue (snd (GetValue d ?key)) ?key ?blob"
  from prev
  have start: "(case fst (GetValue d ?key) of Inr val \<Rightarrow> fst (Unmarshal J val) | Inl err \<Rightarrow> []) = prev"
    by auto
  have e: "storeOfflineMessage J now d X A b = (fst ?p, (if fst ?p = None then [PrintStored] else []), snd ?p)"
    unfolding store_unfold Let_def start by (rule refl)
  have "(fst ?p, (if fst ?p = None then [PrintStored] else []), snd ?p) = (None, out, d')"
    using st unfolding e .
  then have acc: "fst ?p = None" and d': "snd ?p = d'"
    by (rule Pair_inject, blast)+
  have recs: "records d' ?key = Some ?blob"
    using PutValue_accepted [OF acc] d' by simp
  have cs: "calls d' = calls d @ [GetCall ?key, PutCall ?key ?blob]"
    unfolding d' [symmetric] by (simp add: PutValue_calls GetValue_calls)
  have g: "fst (GetValue d' ?key) = Inr ?blob"
    by (rule GetValue_answered [OF answered recs])
  have f: "fetchOfflineMessages J d' X = (None, listing (prev @ [?m]), snd (GetValue d' ?key))"
    by (simp add: fetch_unfold g rt)
  show ?thesis
    by (simp add: f last_listing GetValue_calls cs)
qed

theorem store_then_fetch_witness:
  "fst (GetValue storedDHT (dhtMsgKeyPrefix @ ''PEER-X'')) = Inr blobOld
   \<and> Unmarshal sampleJSON blobOld = ([oldMsg], None)
   \<and> fst (storeOfflineMessage sampleJSON 7 storedDHT ''PEER-X'' ''PEER-A'' ''hello'') = None
   \<and> fst (snd (fetchOfflineMessages sampleJSON
         (snd (snd (storeOfflineMessage sampleJSON 7 storedDHT ''PEER-X'' ''PEER-A'' ''hello''))) ''PEER-X''))
       = [PrintFetchedCount 2, PrintFetchedMessage 1 oldMsg, PrintFetchedMessage 2 newMsg]
   \<and> calls (snd (snd (fetchOfflineMessages sampleJSON
         (snd (snd (storeOfflineMessage sampleJSON 7 storedDHT ''PEER-X'' ''PEER-A'' ''hello''))) ''PEER-X'')))
       = [GetCall ''/p2pchat/messages/PEER-X'', PutCall ''/p2pchat/messages/PEER-X'' blobBoth,
          GetCall ''/p2pchat/messages/PEER-X'']"
proof -
  let ?s = "storeOfflineMessage sampleJSON 7 storedDHT ''PEER-X'' ''PEER-A'' ''hello''"
  have g: "fst (GetValue storedDHT (dhtMsgKeyPrefix @ ''PEER-X'')) = Inr blobOld"
    by (simp add: dht_defs sample_dhts mailboxX_def dhtMsgKeyPrefix_def)
  have u: "Unmarshal sampleJSON blobOld = ([oldMsg], None)"
    by (simp add: sample_defs)
  have ok: "fst ?s = None"
    by (simp add: storeOfflineMessage_def dht_defs sample_dhts)
  have s: "?s = (None, fst (snd ?s), snd (snd ?s))"
    using ok by (simp add: prod_eq_iff)
  have a: "fst (next_fault (faults (snd (snd ?s)))) = None"
    by (simp add: storeOfflineMessage_def dht_defs sample_dhts)
  have n: "\<lparr>From = ''PEER-A'', When = 7, Body = ''hello''\<rparr> = newMsg" by (simp add: newMsg_def)
  have rt: "Unmarshal sampleJSON (Marshal sampleJSON ([oldMsg] @ [\<lparr>From = ''PEER-A'', When = 7, Body = ''hello''\<rparr>]))
      = ([oldMsg] @ [\<lparr>From = ''PEER-A'', When = 7, Body = ''hello''\<rparr>], None)"
    by (simp add: sample_defs)
  have m: "Marshal sampleJSON [oldMsg, newMsg] = blobBoth"
    by (simp add: sample_defs)
  have c: "calls storedDHT = []" by (simp add: sample_dhts)
  from g u have h: "(fst (GetValue storedDHT (dhtMsgKeyPrefix @ ''PEER-X'')) = Inl ErrNotFound \<and> [oldMsg] = [])
      \<or> (\<exists>val. fst (GetValue storedDHT (dhtMsgKeyPrefix @ ''PEER-X'')) = Inr val
            \<and> Unmarshal sampleJSON val = ([oldMsg], None))"
    by blast
  from store_then_fetch [OF h s a rt] g u ok c n m show ?thesis
    by (simp add: listing_def dhtMsgKeyPrefix_def)
qed

text \<open>
  C4. For an identifier under which nothing is stored, \<^verbatim>\<open>fetchOfflineMessages\<close>
  returns the error that wraps the not-found error of the service and prints nothing;
  for a stored blob that fails to deserialize it returns the error of the decoder; the
  two errors are never equal. Any other failure of the \<^verbatim>\<open>Get\<close> is returned wrapped in
  the same way, and differs from the not-found error as the wrapped failure does.
\<close>

theorem fetch_error_kinds:
  "(records d (dhtMsgKeyPrefix @ p) = None \<and> fst (next_fault (faults d)) = None \<longrightarrow>
      fst (fetchOfflineMessages J d p) = Some (Wrapped ''no messages or error: '' ErrNotFound)
      \<and> fst (snd (fetchOfflineMessages J d p)) = [])
   \<and> (\<forall>val left e.
        fst (GetValue d (dhtMsgKeyPrefix @ p)) = Inr val \<and> Unmarshal J val = (left, Some e) \<longrightarrow>
          fst (fetchOfflineMessages J d p) = Some (JSONError e)
          \<and> fst (snd (fetchOfflineMessages J d p)) = [])
   \<and> (\<forall>e. Wrapped ''no messages or error: '' ErrNotFound \<noteq> JSONError e)
   \<and> (\<forall>e. fst (GetValue d (dhtMsgKeyPrefix @ p)) = Inl e \<longrightarrow>
        fst (fetchOfflineMessages J d p) = Some (Wrapped ''no messages or error: '' e)
        \<and> (Wrapped ''no messages or error: '' e = Wrapped ''no messages or error: '' ErrNotFound
             \<longleftrightarrow> e = ErrNotFound))"
  by (auto simp add: fetch_unfold GetValue_absent)

theorem fetch_error_kinds_witness:
  "records emptyDHT (dhtMsgKeyPrefix @ ''PEER-X'') = None
   \<and> fst (next_fault (faults emptyDHT)) = None
   \<and> fst (fetchOfflineMessages sampleJSON emptyDHT ''PEER-X'')
        = Some (Wrapped ''no messages or error: '' ErrNotFound)
   \<and> fst (GetValue corruptDHT (dhtMsgKeyPrefix @ ''PEER-X'')) = Inr blobGarbage
   \<and> Unmarshal sampleJSON blobGarbage = ([], Some ''invalid character'')
   \<and> fst (fetchOfflineMessages sampleJSON corruptDHT ''PEER-X'') = Some (JSONError ''invalid character'')"
proof -
  have r: "records emptyDHT (dhtMsgKeyPrefix @ ''PEER-X'') = None"
    and a: "fst (next_fault (faults emptyDHT)) = None"
    by (simp_all add: sample_dhts next_fault_def)
  have g: "fst (GetValue corruptDHT (dhtMsgKeyPrefix @ ''PEER-X'')) = Inr blobGarbage"
    by (simp add: dht_defs sample_dhts mailboxX_def dhtMsgKeyPrefix_def)
  have u: "Unmarshal sampleJSON blobGarbage = ([], Some ''invalid character'')"
    by (simp add: sample_defs sample_dhts)
  from fetch_error_kinds [of emptyDHT "''PEER-X''" sampleJSON] r a
  have 1: "fst (fetchOfflineMessages sampleJSON emptyDHT ''PEER-X'')
        = Some (Wrapped ''no messages or error: '' ErrNotFound)"
    by blast
  from fetch_error_kinds [of corruptDHT "''PEER-X''" sampleJSON] g u
  have 2: "fst (fetchOfflineMessages sampleJSON corruptDHT ''PEER-X'') = Some (JSONError ''invalid character'')"
    by blast
  from r a g u 1 2 show ?thesis by blast
qed

section \<open>Properties of the inbound stream handler\<close>

lemma spaceRunes_prefix_free:
  "list_all (\<lambda>r. list_all (\<lambda>r'. \<not> prefix r r' \<or> r = r') spaceRunes) spaceRunes"
  by code_simp

lemma spaceRunes_suffix_free:
  "list_all (\<lambda>r. list_all (\<lambda>r'. \<not> suffix r r' \<or> r = r') spaceRunes) spaceRunes"
  by code_simp

lemma spaceRunes_nonempty: "list_all (\<lambda>r. r \<noteq> []) spaceRunes"
  by code_simp

lemma spaceRunes_continuation:
  "list_all (\<lambda>r. list_all (\<lambda>r0. list_all (\<lambda>b. b \<noteq> hd r0) (tl r)) spaceRunes) spaceRunes"
  by code_simp

lemma find_spaceRune_prefix:
  assumes "r \<in> set spaceRunes"
  shows "find (\<lambda>r'. prefix r' (r @ t)) spaceRunes = Some r"
proof (cases "find (\<lambda>r'. prefix r' (r @ t)) spaceRunes")
  case None
  with assms show ?thesis by (auto simp add: find_None_iff)
next
  case (Some r')
  then have r': "r' \<in> set spaceRunes" and p: "prefix r' (r @ t)"
    by (auto simp add: find_Some_iff)
  have "prefix r (r @ t)" by simp
  with p have "prefix r r' \<or> prefix r' r" using prefix_same_cases by blast
  with assms r' spaceRunes_prefix_free have "r' = r"
    by (auto simp add: list_all_iff)
  with Some show ?thesis by simp
qed

lemma find_spaceRune_suffix:
  assumes "r \<in> set spaceRunes"
  shows "find (\<lambda>r'. suffix r' (t @ r)) spaceRunes = Some r"
proof (cases "find (\<lambda>r'. suffix r' (t @ r)) spaceRunes")
  case None
  with assms have "\<not> suffix r (t @ r)" by (auto simp add: find_None_iff)
  then show ?thesis by (simp add: suffix_def)
next
  case (Some r')
  then have r': "r' \<in> set spaceRunes" and p: "suffix r' (t @ r)"
    by (auto simp add: find_Some_iff)
  have "suffix r (t @ r)" by (simp add: suffix_def)
  with p have "suffix r r' \<or> suffix r' r" using suffix_same_cases by blast
  with assms r' spaceRunes_suffix_free have "r' = r"
    by (auto simp add: list_all_iff)
  with Some show ?thesis by simp
qed

lemma TrimLeft_spaces:
  "set rs \<subseteq> set spaceRunes \<Longrightarrow> TrimLeft (concat rs @ t) = TrimLeft t"
proof (induction rs)
  case Nil
  show ?case by simp
next
  case (Cons r rs)
  then have "r \<in> set spaceRunes" by simp
  then have "dropSpaceRune (r @ concat rs @ t) = Some (concat rs @ t)"
    by (simp add: dropSpaceRune_def find_spaceRune_prefix)
  then have "TrimLeft (concat (r # rs) @ t) = TrimLeft (concat rs @ t)"
    by (subst TrimLeft.simps) simp
  with Cons show ?case by simp
qed

lemma TrimRight_spaces:
  "set rs \<subseteq> set spaceRunes \<Longrightarrow> TrimRight (t @ concat rs) = TrimRight t"
proof (induction rs rule: rev_induct)
  case Nil
  show ?case by simp
next
  case (snoc r rs)
  then have "r \<in> set spaceRunes" by simp
  then have "find (\<lambda>r'. suffix r' ((t @ concat rs) @ r)) spaceRunes = Some r"
    by (rule find_spaceRune_suffix)
  then have "dropLastSpaceRune (t @ concat rs @ r) = Some (t @ concat rs)"
    by (simp add: dropLastSpaceRune_def)
  then have "TrimRight (t @ concat (rs @ [r])) = TrimRight (t @ concat rs)"
    by (subst TrimRight.simps) simp
  with snoc show ?case by simp
qed

lemma hd_concat_spaces:
  "set rs \<subseteq> set spaceRunes \<Longrightarrow> concat rs \<noteq> [] \<Longrightarrow> \<exists>r0\<in>set spaceRunes. hd (concat rs) = hd r0"
proof (induction rs)
  case Nil
  then show ?case by simp
next
  case (Cons r rs)
  then have "r \<in> set spaceRunes" by simp
  moreover from this spaceRunes_nonempty have "r \<noteq> []" by (auto simp add: list_all_iff)
  ultimately show ?case by auto
qed

lemma dropSpaceRune_payload:
  assumes p: "dropSpaceRune p = None" and ne: "p \<noteq> []" and rs: "set rs \<subseteq> set spaceRunes"
  shows "dropSpaceRune (p @ concat rs) = None"
proof -
  have "\<not> prefix r (p @ concat rs)" if r: "r \<in> set spaceRunes" for r
  proof
    assume "prefix r (p @ concat rs)"
    then have "prefix r p \<or> (\<exists>us. r = p @ us \<and> prefix us (concat rs))"
      by (simp add: prefix_append)
    moreover from p r have np: "\<not> prefix r p"
      by (auto simp add: dropSpaceRune_def find_None_iff split: option.splits)
    ultimately obtain us where us: "r = p @ us" and pu: "prefix us (concat rs)" by blast
    from us np have "us \<noteq> []" by auto
    from pu obtain zs where zs: "concat rs = us @ zs" by (auto simp add: prefix_def)
    with \<open>us \<noteq> []\<close> have w: "concat rs \<noteq> []" and h: "hd (concat rs) = hd us"
      unfolding zs by simp_all
    from hd_concat_spaces [OF rs w] obtain r0 where r0: "r0 \<in> set spaceRunes"
      and h0: "hd (concat rs) = hd r0" by blast
    from us ne \<open>us \<noteq> []\<close> have "hd us \<in> set (tl r)" by (cases p) auto
    with r r0 spaceRunes_continuation have "hd us \<noteq> hd r0"
      by (auto simp add: list_all_iff)
    with h h0 show False by simp
  qed
  then show ?thesis
    by (auto simp add: dropSpaceRune_def find_None_iff split: option.splits)
qed

lemma TrimSpace_strips:
  assumes b: "set before \<subseteq> set spaceRunes" and a: "set after \<subseteq> set spaceRunes"
    and l: "dropSpaceRune payload = None" and r: "dropLastSpaceRune payload = None"
  shows "TrimSpace (concat before @ payload @ concat after) = payload"
proof (cases "payload = []")
  case True
  have "TrimLeft (concat (before @ after) @ []) = TrimLeft []"
    using a b by (intro TrimLeft_spaces) simp
  moreover have "TrimLeft [] = []" using l True by (subst TrimLeft.simps) simp
  moreover have "TrimRight [] = []" using r True by (subst TrimRight.simps) simp
  ultimately show ?thesis using True by (simp add: TrimSpace_def)
next
  case False
  have "TrimLeft (concat before @ payload @ concat after) = TrimLeft (payload @ concat after)"
    using b by (rule TrimLeft_spaces)
  also have "\<dots> = payload @ concat after"
    using dropSpaceRune_payload [OF l False a] by (subst TrimLeft.simps) simp
  finally have "TrimSpace (concat before @ payload @ concat after) = TrimRight (payload @ concat after)"
    by (simp add: TrimSpace_def)
  also have "\<dots> = TrimRight payload" using a by (rule TrimRight_spaces)
  also have "\<dots> = payload" using r by (subst TrimRight.simps) simp
  finally show ?thesis .
qed

lemma ReadString_line:
  "delim \<notin> set l \<Longrightarrow> ReadString delim (l @ delim # rest) = (l @ [delim], Some rest)"
  by (induction l) auto

lemma ReadString_partial:
  "delim \<notin> set p \<Longrightarrow> ReadString delim p = (p, None)"
  by (induction p) auto

lemma readLoop_line:
  "CHR 0x0A \<notin> set l \<Longrightarrow>
     readLoop J peer (l @ CHR 0x0A # rest) e = handleLine J peer (l @ [CHR 0x0A]) # readLoop J peer rest e"
  by (subst readLoop.simps) (simp add: ReadString_line)

lemma readLoop_partial:
  "CHR 0x0A \<notin> set p \<Longrightarrow>
     readLoop J peer p e = (if e \<noteq> EOF then [PrintStreamReadErr e] else [])"
  by (subst readLoop.simps) (simp add: ReadString_partial)

lemma readLoop_lines:
  assumes "\<forall>l\<in>set frames. CHR 0x0A \<notin> set l" and "CHR 0x0A \<notin> set p"
  shows "readLoop J peer (concat (map (\<lambda>l. l @ [CHR 0x0A]) frames) @ p) e =
           map (\<lambda>l. handleLine J peer (l @ [CHR 0x0A])) frames @
           (if e \<noteq> EOF then [PrintStreamReadErr e] else [])"
  using assms
proof (induction frames)
  case Nil
  then show ?case by (simp add: readLoop_partial)
next
  case (Cons l frames)
  then show ?case by (simp add: readLoop_line)
qed

text \<open>
  C5. Every newline-terminated frame of an inbound stream is handled on its own and in
  order: a frame that fails to parse is reported and the loop goes on with the next
  frame, a frame that parses is displayed. So a malformed frame followed by a well-formed
  one yields the report and exactly one displayed message, the well-formed one.
\<close>

theorem handler_skips_malformed_frames:
  "(\<forall>frames p e.
      (\<forall>l\<in>set frames. CHR 0x0A \<notin> set l) \<and> CHR 0x0A \<notin> set p \<longrightarrow>
      fst (streamHandler J \<lparr>remotePeer = peer,
             incoming = concat (map (\<lambda>l. l @ [CHR 0x0A]) frames) @ p, ending = e, closed = False\<rparr>)
        = map (\<lambda>l. handleLine J peer (l @ [CHR 0x0A])) frames
          @ (if e \<noteq> EOF then [PrintStreamReadErr e] else []))
   \<and> (\<forall>bad good err m.
        CHR 0x0A \<notin> set bad \<and> CHR 0x0A \<notin> set good
        \<and> UnmarshalMessage J (TrimSpace (bad @ [CHR 0x0A])) = Inl err
        \<and> UnmarshalMessage J (TrimSpace (good @ [CHR 0x0A])) = Inr m \<longrightarrow>
        fst (streamHandler J \<lparr>remotePeer = peer,
               incoming = bad @ [CHR 0x0A] @ good @ [CHR 0x0A], ending = EOF, closed = False\<rparr>)
          = [PrintInvalidMessage peer (TrimSpace (bad @ [CHR 0x0A])), PrintMessage m])"
proof (intro conjI allI impI)
  fix frames :: "bytes list" and p :: bytes and e :: error
  assume "(\<forall>l\<in>set frames. CHR 0x0A \<notin> set l) \<and> CHR 0x0A \<notin> set p"
  then show "fst (streamHandler J \<lparr>remotePeer = peer,
             incoming = concat (map (\<lambda>l. l @ [CHR 0x0A]) frames) @ p, ending = e, closed = False\<rparr>)
        = map (\<lambda>l. handleLine J peer (l @ [CHR 0x0A])) frames
          @ (if e \<noteq> EOF then [PrintStreamReadErr e] else [])"
    by (simp add: streamHandler_def readLoop_lines)
next
  fix bad good :: bytes and err :: string and m :: message
  assume a: "CHR 0x0A \<notin> set bad \<and> CHR 0x0A \<notin> set good
        \<and> UnmarshalMessage J (TrimSpace (bad @ [CHR 0x0A])) = Inl err
        \<and> UnmarshalMessage J (TrimSpace (good @ [CHR 0x0A])) = Inr m"
  then have "readLoop J peer (bad @ CHR 0x0A # good @ CHR 0x0A # []) EOF
      = [handleLine J peer (bad @ [CHR 0x0A]), handleLine J peer (good @ [CHR 0x0A])]"
    by (simp add: readLoop_line readLoop_partial)
  with a show "fst (streamHandler J \<lparr>remotePeer = peer,
               incoming = bad @ [CHR 0x0A] @ good @ [CHR 0x0A], ending = EOF, closed = False\<rparr>)
          = [PrintInvalidMessage peer (TrimSpace (bad @ [CHR 0x0A])), PrintMessage m]"
    by (simp add: streamHandler_def handleLine_def)
qed

theorem handler_skips_malformed_frames_witness:
  "CHR 0x0A \<notin> set ''garbage'' \<and> CHR 0x0A \<notin> set frameNew
   \<and> UnmarshalMessage sampleJSON (TrimSpace (''garbage'' @ [CHR 0x0A])) = Inl ''invalid character''
   \<and> UnmarshalMessage sampleJSON (TrimSpace (frameNew @ [CHR 0x0A])) = Inr newMsg
   \<and> fst (streamHandler sampleJSON \<lparr>remotePeer = ''PEER-A'',
          incoming = ''garbage'' @ [CHR 0x0A] @ frameNew @ [CHR 0x0A], ending = EOF, closed = False\<rparr>)
       = [PrintInvalidMessage ''PEER-A'' ''garbage'', PrintMessage newMsg]"
proof -
  have n: "CHR 0x0A \<notin> set ''garbage''" "CHR 0x0A \<notin> set frameNew"
    by (simp_all add: frameNew_def)
  have t: "TrimSpace (''garbage'' @ [CHR 0x0A]) = ''garbage''" by code_simp
  have b: "UnmarshalMessage sampleJSON (TrimSpace (''garbage'' @ [CHR 0x0A])) = Inl ''invalid character''"
    unfolding t by (simp add: sample_defs)
  have g: "UnmarshalMessage sampleJSON (TrimSpace (frameNew @ [CHR 0x0A])) = Inr newMsg"
    by code_simp
  from handler_skips_malformed_frames [of sampleJSON "''PEER-A''"] n b g
  have "fst (streamHandler sampleJSON \<lparr>remotePeer = ''PEER-A'',
          incoming = ''garbage'' @ [CHR 0x0A] @ frameNew @ [CHR 0x0A], ending = EOF, closed = False\<rparr>)
       = [PrintInvalidMessage ''PEER-A'' (TrimSpace (''garbage'' @ [CHR 0x0A])), PrintMessage newMsg]"
    by blast
  with n b g t show ?thesis by simp
qed

text \<open>
  C10. The handler parses each line it reads without its leading and trailing white
  space (the carriage return and the newline that end the line included): a line made of
  white space \<open>before\<close>, a payload that neither starts nor ends with white space, and
  white space \<open>after\<close> is handled as the payload alone. A line with an empty payload,
  that is an empty or all-white-space line, is reported as an invalid message when the
  decoder rejects the empty input, and the loop goes on with the rest of the stream.
\<close>

theorem handler_strips_white_space:
  assumes "set before \<subseteq> set spaceRunes" and "set after \<subseteq> set spaceRunes"
    and "dropSpaceRune payload = None" and "dropLastSpaceRune payload = None"
    and "CHR 0x0A \<notin> set (concat before @ payload @ concat after)"
    and "UnmarshalMessage J [] = Inl err"
  shows "readLoop J peer (concat before @ payload @ concat after @ CHR 0x0A # rest) e
           = (case UnmarshalMessage J payload of
                Inl x \<Rightarrow> PrintInvalidMessage peer payload
              | Inr m \<Rightarrow> PrintMessage m) # readLoop J peer rest e
         \<and> (payload = [] \<longrightarrow>
              readLoop J peer (concat before @ payload @ concat after @ CHR 0x0A # rest) e
                = PrintInvalidMessage peer [] # readLoop J peer rest e)"
proof -
  have "[CHR 0x0A] \<in> set spaceRunes" by (simp add: spaceRunes_def)
  with assms(2) have a: "set (after @ [[CHR 0x0A]]) \<subseteq> set spaceRunes" by simp
  have "TrimSpace (concat before @ payload @ concat (after @ [[CHR 0x0A]])) = payload"
    using assms(1) a assms(3,4) by (rule TrimSpace_strips)
  then have t: "TrimSpace ((concat before @ payload @ concat after) @ [CHR 0x0A]) = payload"
    by simp
  have "readLoop J peer ((concat before @ payload @ concat after) @ CHR 0x0A # rest) e
      = handleLine J peer ((concat before @ payload @ concat after) @ [CHR 0x0A]) # readLoop J peer rest e"
    using assms(5) by (rule readLoop_line)
  moreover have "handleLine J peer ((concat before @ payload @ concat after) @ [CHR 0x0A])
      = (case UnmarshalMessage J payload of
                Inl x \<Rightarrow> PrintInvalidMessage peer payload
              | Inr m \<Rightarrow> PrintMessage m)"
    unfolding handleLine_def Let_def t by (rule refl)
  ultimately have "readLoop J peer (concat before @ payload @ concat after @ CHR 0x0A # rest) e
      = (case UnmarshalMessage J payload of
                Inl x \<Rightarrow> PrintInvalidMessage peer payload
              | Inr m \<Rightarrow> PrintMessage m) # readLoop J peer rest e"
    by simp
  with assms(6) show ?thesis by auto
qed

theorem handler_strips_white_space_witness:
  "readLoop sampleJSON ''PEER-A''
     ([CHR 0x20, CHR 0x09] @ frameNew @ [CHR 0x0D, CHR 0x0A] @ [CHR 0x20, CHR 0x0D, CHR 0x0A]) EOF
   = [PrintMessage newMsg, PrintInvalidMessage ''PEER-A'' []]"
proof -
  have s1: "set [[CHR 0x20], [CHR 0x09]] \<subseteq> set spaceRunes"
    and s2: "set [[CHR 0x0D]] \<subseteq> set spaceRunes"
    and s3: "set [[CHR 0x20], [CHR 0x0D]] \<subseteq> set spaceRunes"
    and s0: "set ([] :: string list) \<subseteq> set spaceRunes"
    by (simp_all add: spaceRunes_def)
  have p1: "dropSpaceRune frameNew = None" and p2: "dropLastSpaceRune frameNew = None"
    and q1: "dropSpaceRune [] = None" and q2: "dropLastSpaceRune [] = None"
    by code_simp+
  have n1: "CHR 0x0A \<notin> set (concat [[CHR 0x20], [CHR 0x09]] @ frameNew @ concat [[CHR 0x0D]])"
    and n2: "CHR 0x0A \<notin> set (concat [] @ [] @ concat [[CHR 0x20], [CHR 0x0D]])"
    by (simp_all add: frameNew_def)
  have u: "UnmarshalMessage sampleJSON [] = Inl ''unexpected end of JSON input''"
    and v: "UnmarshalMessage sampleJSON frameNew = Inr newMsg"
    by (simp_all add: sample_defs)
  have e: "readLoop sampleJSON ''PEER-A'' [] EOF = []"
    by (simp add: readLoop_partial)
  from handler_strips_white_space [OF s1 s2 p1 p2 n1 u, of "''PEER-A''" "[CHR 0x20, CHR 0x0D, CHR 0x0A]" EOF]
    handler_strips_white_space [OF s0 s3 q1 q2 n2 u, of "''PEER-A''" "[]" EOF] u v e
  show ?thesis by simp
qed

section \<open>Properties of invites, connections and direct messages\<close>

lemmas host_defs = AddAddrs_def Connect_def NewStream_def Write_def Close_def next_fault_def Let_def

lemmas sample_hosts = addrA_def inviteA_def sampleAddressing_def hostA_def hostB_def
  hostOffline_def

lemma connectPeer_parsed:
  assumes "NewMultiaddr A s = Inr maddr" and "AddrInfoFromP2pAddr maddr = Inr pi"
  shows "connectPeer A h s =
           (fst (next_fault (netFaults h)),
            (if fst (next_fault (netFaults h)) = None then [PrintConnected (ID pi)] else []),
            h\<lparr>peerstore := peerstore h @ map (\<lambda>a. (ID pi, a, PermanentAddrTTL)) (Addrs pi),
              netFaults := snd (next_fault (netFaults h)),
              hostCalls := hostCalls h @ [AddAddrsCall (ID pi) (Addrs pi) PermanentAddrTTL, ConnectCall pi]\<rparr>)"
  using assms
  by (cases "next_fault (netFaults h)")
    (simp add: connectPeer_def AddAddrs_def Connect_def Let_def split: option.splits)

lemma AddrInfoFromP2pAddr_encapsulated:
  "a \<noteq> [] \<Longrightarrow> AddrInfoFromP2pAddr (a @ [(''p2p'', p)]) = Inr \<lparr>ID = p, Addrs = [a]\<rparr>"
  by (simp add: AddrInfoFromP2pAddr_def)

text \<open>
  C6. When the invite parses, \<^verbatim>\<open>connectPeer\<close> first registers the addresses of the
  invite for its peer identifier in the peerstore, as permanent, and then asks the
  transport to connect; it returns the outcome of that connection attempt, and when the
  attempt fails the registered addresses stay in the peerstore.
\<close>

theorem connect_registers_before_dialing:
  assumes "NewMultiaddr A s = Inr maddr" and "AddrInfoFromP2pAddr maddr = Inr pi"
    and "connectPeer A h s = (res, out, h')"
  shows "hostCalls h' = hostCalls h @ [AddAddrsCall (ID pi) (Addrs pi) PermanentAddrTTL, ConnectCall pi]
         \<and> peerstore h' = peerstore h @ map (\<lambda>a. (ID pi, a, PermanentAddrTTL)) (Addrs pi)
         \<and> res = fst (next_fault (netFaults h))
         \<and> (\<forall>e. fst (next_fault (netFaults h)) = Some e \<longrightarrow>
               res = Some e \<and> out = []
               \<and> (\<forall>a\<in>set (Addrs pi). (ID pi, a, PermanentAddrTTL) \<in> set (peerstore h')))"
  using assms(3) unfolding connectPeer_parsed [OF assms(1,2)] by auto

theorem connect_registers_before_dialing_witness:
  "NewMultiaddr sampleAddressing inviteA = Inr (addrA @ [(''p2p'', ''PEER-A'')])
   \<and> AddrInfoFromP2pAddr (addrA @ [(''p2p'', ''PEER-A'')]) = Inr \<lparr>ID = ''PEER-A'', Addrs = [addrA]\<rparr>
   \<and> fst (next_fault (netFaults hostOffline)) = Some (Failure ''dial backoff'')
   \<and> fst (connectPeer sampleAddressing hostOffline inviteA) = Some (Failure ''dial backoff'')
   \<and> peerstore (snd (snd (connectPeer sampleAddressing hostOffline inviteA)))
       = [(''PEER-A'', addrA, PermanentAddrTTL)]
   \<and> hostCalls (snd (snd (connectPeer sampleAddressing hostOffline inviteA)))
       = [AddAddrsCall ''PEER-A'' [addrA] PermanentAddrTTL,
          ConnectCall \<lparr>ID = ''PEER-A'', Addrs = [addrA]\<rparr>]"
proof -
  let ?c = "connectPeer sampleAddressing hostOffline inviteA"
  have p: "NewMultiaddr sampleAddressing inviteA = Inr (addrA @ [(''p2p'', ''PEER-A'')])"
    by (simp add: sampleAddressing_def)
  have i: "AddrInfoFromP2pAddr (addrA @ [(''p2p'', ''PEER-A'')]) = Inr \<lparr>ID = ''PEER-A'', Addrs = [addrA]\<rparr>"
    by (simp add: AddrInfoFromP2pAddr_def addrA_def)
  have c: "?c = (fst ?c, fst (snd ?c), snd (snd ?c))" by simp
  have f: "fst (next_fault (netFaults hostOffline)) = Some (Failure ''dial backoff'')"
    by (simp add: hostOffline_def next_fault_def)
  have s: "peerstore hostOffline = []" "hostCalls hostOffline = []"
    by (simp_all add: hostOffline_def hostB_def)
  from connect_registers_before_dialing [OF p i c] p i f s show ?thesis by simp
qed

text \<open>
  C8. \<^verbatim>\<open>printInvite\<close> prints one invite per listen address, the text of the address
  followed by \<^verbatim>\<open>/p2p/\<close> and the identifier of the host. For an address \<open>a\<close> and an
  identifier \<open>p\<close> on which the multiaddress library prints a trailing \<^verbatim>\<open>/p2p/\<close>
  component in that form and parses back what it prints, \<^verbatim>\<open>connectPeer\<close> decodes the
  invite to exactly \<open>a\<close> and \<open>p\<close>: these are what it registers and what it dials.
\<close>

theorem invite_round_trip:
  assumes "MultiaddrString A (a @ [(''p2p'', p)]) = MultiaddrString A a @ ''/p2p/'' @ p"
    and "NewMultiaddr A (MultiaddrString A (a @ [(''p2p'', p)])) = Inr (a @ [(''p2p'', p)])"
    and "a \<noteq> []"
  shows "(hostID h = p \<and> hostAddrs h \<noteq> [] \<longrightarrow>
            printInvite A h
              = map (\<lambda>a. PrintInvite (MultiaddrString A a @ ''/p2p/'' @ p)) (hostAddrs h) @ [PrintShareHint])
         \<and> (case NewMultiaddr A (MultiaddrString A a @ ''/p2p/'' @ p) of
               Inl err \<Rightarrow> Inl err
             | Inr maddr \<Rightarrow> AddrInfoFromP2pAddr maddr) = Inr \<lparr>ID = p, Addrs = [a]\<rparr>
         \<and> hostCalls (snd (snd (connectPeer A g (MultiaddrString A a @ ''/p2p/'' @ p))))
             = hostCalls g @ [AddAddrsCall p [a] PermanentAddrTTL, ConnectCall \<lparr>ID = p, Addrs = [a]\<rparr>]
         \<and> peerstore (snd (snd (connectPeer A g (MultiaddrString A a @ ''/p2p/'' @ p))))
             = peerstore g @ [(p, a, PermanentAddrTTL)]"
proof -
  have n: "NewMultiaddr A (MultiaddrString A a @ ''/p2p/'' @ p) = Inr (a @ [(''p2p'', p)])"
    using assms(1,2) by simp
  have i: "AddrInfoFromP2pAddr (a @ [(''p2p'', p)]) = Inr \<lparr>ID = p, Addrs = [a]\<rparr>"
    using assms(3) by (rule AddrInfoFromP2pAddr_encapsulated)
  have c1: "hostID h = p \<and> hostAddrs h \<noteq> [] \<longrightarrow>
            printInvite A h
              = map (\<lambda>a. PrintInvite (MultiaddrString A a @ ''/p2p/'' @ p)) (hostAddrs h) @ [PrintShareHint]"
    by (simp add: printInvite_def)
  have c2: "(case NewMultiaddr A (MultiaddrString A a @ ''/p2p/'' @ p) of
               Inl err \<Rightarrow> Inl err
             | Inr maddr \<Rightarrow> AddrInfoFromP2pAddr maddr) = Inr \<lparr>ID = p, Addrs = [a]\<rparr>"
    unfolding n by (simp add: i)
  have c3: "hostCalls (snd (snd (connectPeer A g (MultiaddrString A a @ ''/p2p/'' @ p))))
             = hostCalls g @ [AddAddrsCall p [a] PermanentAddrTTL, ConnectCall \<lparr>ID = p, Addrs = [a]\<rparr>]"
    unfolding connectPeer_parsed [OF n i] by simp
  have c4: "peerstore (snd (snd (connectPeer A g (MultiaddrString A a @ ''/p2p/'' @ p))))
             = peerstore g @ [(p, a, PermanentAddrTTL)]"
    unfolding connectPeer_parsed [OF n i] by simp
  from c1 c2 c3 c4 show ?thesis by blast
qed

theorem invite_round_trip_witness:
  "printInvite sampleAddressing hostA = [PrintInvite inviteA, PrintShareHint]
   \<and> (case NewMultiaddr sampleAddressing inviteA of
         Inl err \<Rightarrow> Inl err
       | Inr maddr \<Rightarrow> AddrInfoFromP2pAddr maddr) = Inr \<lparr>ID = ''PEER-A'', Addrs = [addrA]\<rparr>
   \<and> peerstore (snd (snd (connectPeer sampleAddressing hostB inviteA)))
       = [(''PEER-A'', addrA, PermanentAddrTTL)]"
proof -
  have t: "MultiaddrString sampleAddressing addrA @ ''/p2p/'' @ ''PEER-A'' = inviteA"
    by (simp add: sample_hosts)
  have 1: "MultiaddrString sampleAddressing (addrA @ [(''p2p'', ''PEER-A'')])
      = MultiaddrString sampleAddressing addrA @ ''/p2p/'' @ ''PEER-A''"
    by (simp add: sample_hosts)
  have 2: "NewMultiaddr sampleAddressing (MultiaddrString sampleAddressing (addrA @ [(''p2p'', ''PEER-A'')]))
      = Inr (addrA @ [(''p2p'', ''PEER-A'')])"
    by (simp add: sample_hosts)
  have 3: "addrA \<noteq> []" by (simp add: addrA_def)
  have h: "hostID hostA = ''PEER-A''" "hostAddrs hostA = [addrA]" "peerstore hostB = []"
    by (simp_all add: hostA_def hostB_def)
  have t': "MultiaddrString sampleAddressing addrA @ ''/p2p/PEER-A'' = inviteA"
    by (simp add: sample_hosts)
  from invite_round_trip [OF 1 2 3, of hostA hostB, unfolded t] h t' show ?thesis
    by simp
qed

lemma sendMessage_opened:
  assumes "Decode A peerIDStr = Inr pid" and "fst (next_fault (netFaults h)) = None"
  shows "sendMessage J A now h peerIDStr body =
           (let f = \<lparr>From = hostID h, When = now, Body = body\<rparr>;
                w = fst (next_fault (snd (next_fault (netFaults h))))
            in (w, (if w = None then [PrintSent] else []),
                h\<lparr>netFaults := snd (next_fault (snd (next_fault (netFaults h)))),
                  hostCalls := hostCalls h @ [NewStreamCall pid protocolID,
                     WriteCall (opened h) (MarshalMessage J f @ [CHR 0x0A]), CloseCall (opened h)],
                  opened := opened h + 1\<rparr>))"
  using assms
  by (cases "next_fault (netFaults h)"; cases "next_fault (snd (next_fault (netFaults h)))")
    (simp add: sendMessage_def NewStream_def Write_def Close_def Let_def split: option.splits)

lemma sendMessage_not_opened:
  assumes "Decode A peerIDStr = Inr pid" and "fst (next_fault (netFaults h)) = Some e"
  shows "sendMessage J A now h peerIDStr body =
           (Some e, [], h\<lparr>netFaults := snd (next_fault (netFaults h)),
                          hostCalls := hostCalls h @ [NewStreamCall pid protocolID]\<rparr>)"
  using assms
  by (cases "next_fault (netFaults h)")
    (simp add: sendMessage_def NewStream_def Let_def)

lemma sendMessage_not_decoded:
  assumes "Decode A peerIDStr = Inl e"
  shows "sendMessage J A now h peerIDStr body = (Some e, [], h)"
  using assms by (simp add: sendMessage_def)

lemma NewStream_result:
  "fst (NewStream h p proto) =
     (case fst (next_fault (netFaults h)) of Some e \<Rightarrow> Inl e | None \<Rightarrow> Inr (opened h))"
  by (cases "next_fault (netFaults h)") (simp add: NewStream_def Let_def split: option.splits)

lemma NewStream_netFaults:
  "netFaults (snd (NewStream h p proto)) = snd (next_fault (netFaults h))"
  by (cases "next_fault (netFaults h)") (simp add: NewStream_def Let_def split: option.splits)

lemma Write_result: "fst (Write h s b) = fst (next_fault (netFaults h))"
  by (cases "next_fault (netFaults h)") (simp add: Write_def Let_def)

text \<open>
  C7. A successful \<^verbatim>\<open>sendMessage\<close> makes exactly three calls on the transport: it opens
  one stream to the peer under the protocol identifier \<^verbatim>\<open>/p2pchat/1.0.0\<close>, writes on it
  one frame, the serialized message (sender the local identifier, time the current time,
  body the given text) followed by one newline, and closes it; it reports success only
  when the stream was opened and the transport accepted that write. Its result is the
  error of \<^verbatim>\<open>peer.Decode\<close>, else the error of \<^verbatim>\<open>NewStream\<close>, else the outcome of the
  \<^verbatim>\<open>Write\<close>. On every path the stream is closed exactly when it was opened: after a
  failed write too, and not when the identifier does not parse or the stream cannot be
  opened.
\<close>

theorem send_one_frame_and_close:
  assumes "sendMessage J A now h peerIDStr body = (res, out, h')"
  shows "(res = None \<longrightarrow>
            (\<exists>pid. Decode A peerIDStr = Inr pid
               \<and> hostCalls h' = hostCalls h @
                    [NewStreamCall pid protocolID,
                     WriteCall (opened h)
                       (MarshalMessage J \<lparr>From = hostID h, When = now, Body = body\<rparr> @ [CHR 0x0A]),
                     CloseCall (opened h)]
               \<and> fst (NewStream h pid protocolID) = Inr (opened h)
               \<and> fst (Write (snd (NewStream h pid protocolID)) (opened h)
                    (MarshalMessage J \<lparr>From = hostID h, When = now, Body = body\<rparr> @ [CHR 0x0A])) = None)
            \<and> out = [PrintSent])
         \<and> (opened h' = opened h + 1 \<longrightarrow>
               (\<exists>calls. hostCalls h' = hostCalls h @ calls @ [CloseCall (opened h)]
                  \<and> (\<forall>s. CloseCall s \<notin> set calls)))
         \<and> (opened h' = opened h \<longrightarrow>
               (\<exists>calls. hostCalls h' = hostCalls h @ calls \<and> (\<forall>s. CloseCall s \<notin> set calls))
               \<and> res \<noteq> None)
         \<and> (opened h' = opened h + 1 \<or> opened h' = opened h)
         \<and> (\<forall>e. Decode A peerIDStr = Inl e \<longrightarrow> res = Some e \<and> out = [] \<and> h' = h)
         \<and> (\<forall>pid e. Decode A peerIDStr = Inr pid \<and> fst (NewStream h pid protocolID) = Inl e \<longrightarrow>
               res = Some e \<and> out = []
               \<and> hostCalls h' = hostCalls h @ [NewStreamCall pid protocolID])
         \<and> (\<forall>pid s. Decode A peerIDStr = Inr pid \<and> fst (NewStream h pid protocolID) = Inr s \<longrightarrow>
               res = fst (Write (snd (NewStream h pid protocolID)) s
                      (MarshalMessage J \<lparr>From = hostID h, When = now, Body = body\<rparr> @ [CHR 0x0A]))
               \<and> out = (if res = None then [PrintSent] else [])
               \<and> hostCalls h' = hostCalls h @
                    [NewStreamCall pid protocolID,
                     WriteCall s
                       (MarshalMessage J \<lparr>From = hostID h, When = now, Body = body\<rparr> @ [CHR 0x0A]),
                     CloseCall s])"
proof -
  let ?frame = "MarshalMessage J \<lparr>From = hostID h, When = now, Body = body\<rparr> @ [CHR 0x0A]"
  let ?c1 = "res = None \<longrightarrow>
            (\<exists>pid. Decode A peerIDStr = Inr pid
               \<and> hostCalls h' = hostCalls h @
                    [NewStreamCall pid protocolID, WriteCall (opened h) ?frame, CloseCall (opened h)]
               \<and> fst (NewStream h pid protocolID) = Inr (opened h)
               \<and> fst (Write (snd (NewStream h pid protocolID)) (opened h) ?frame) = None)
            \<and> out = [PrintSent]"
  let ?c2 = "opened h' = opened h + 1 \<longrightarrow>
               (\<exists>calls. hostCalls h' = hostCalls h @ calls @ [CloseCall (opened h)]
                  \<and> (\<forall>s. CloseCall s \<notin> set calls))"
  let ?c3 = "opened h' = opened h \<longrightarrow>
               (\<exists>calls. hostCalls h' = hostCalls h @ calls \<and> (\<forall>s. CloseCall s \<notin> set calls))
               \<and> res \<noteq> None"
  let ?c4 = "opened h' = opened h + 1 \<or> opened h' = opened h"
  let ?c5 = "\<forall>e. Decode A peerIDStr = Inl e \<longrightarrow> res = Some e \<and> out = [] \<and> h' = h"
  let ?c6 = "\<forall>pid e. Decode A peerIDStr = Inr pid \<and> fst (NewStream h pid protocolID) = Inl e \<longrightarrow>
               res = Some e \<and> out = []
               \<and> hostCalls h' = hostCalls h @ [NewStreamCall pid protocolID]"
  let ?c7 = "\<forall>pid s. Decode A peerIDStr = Inr pid \<and> fst (NewStream h pid protocolID) = Inr s \<longrightarrow>
               res = fst (Write (snd (NewStream h pid protocolID)) s ?frame)
               \<and> out = (if res = None then [PrintSent] else [])
               \<and> hostCalls h' = hostCalls h @
                    [NewStreamCall pid protocolID, WriteCall s ?frame, CloseCall s]"
  have "?c1 \<and> ?c2 \<and> ?c3 \<and> ?c4 \<and> ?c5 \<and> ?c6 \<and> ?c7"
  proof (cases "Decode A peerIDStr")
    case (Inl e)
    from assms have r: "res = Some e" and o: "out = []" and h: "h' = h"
      unfolding sendMessage_not_decoded [OF Inl] by simp_all
    have "hostCalls h = hostCalls h @ [] \<and> (\<forall>s. CloseCall s \<notin> set [])" by simp
    then have e: "\<exists>calls. hostCalls h = hostCalls h @ calls \<and> (\<forall>s. CloseCall s \<notin> set calls)" ..
    have 1: ?c1 by (simp add: r)
    have 2: ?c2 by (simp add: h)
    have 3: ?c3 using e by (simp add: h r)
    have 4: ?c4 by (simp add: h)
    have 5: ?c5 by (simp add: Inl r o h)
    have 6: ?c6 by (simp add: Inl)
    have 7: ?c7 by (simp add: Inl)
    from 1 2 3 4 5 6 7 show ?thesis by (intro conjI)
  next
    case (Inr pid)
    show ?thesis
    proof (cases "fst (next_fault (netFaults h))")
      case None
      let ?w = "fst (next_fault (snd (next_fault (netFaults h))))"
      from assms have r: "res = ?w" and o: "out = (if ?w = None then [PrintSent] else [])"
        and c: "hostCalls h' = hostCalls h @
            [NewStreamCall pid protocolID, WriteCall (opened h) ?frame, CloseCall (opened h)]"
        and n: "opened h' = opened h + 1"
        unfolding sendMessage_opened [OF Inr None] Let_def by auto
      have ns: "fst (NewStream h pid protocolID) = Inr (opened h)"
        by (simp add: NewStream_result None)
      have wr: "fst (Write (snd (NewStream h pid protocolID)) s ?frame) = ?w" for s
        by (simp add: Write_result NewStream_netFaults)
      have "hostCalls h' = hostCalls h @ [NewStreamCall pid protocolID, WriteCall (opened h) ?frame]
              @ [CloseCall (opened h)]
            \<and> (\<forall>s. CloseCall s \<notin> set [NewStreamCall pid protocolID, WriteCall (opened h) ?frame])"
        by (simp add: c)
      then have e: "\<exists>calls. hostCalls h' = hostCalls h @ calls @ [CloseCall (opened h)]
                  \<and> (\<forall>s. CloseCall s \<notin> set calls)" ..
      have 1: ?c1 using r o by (simp add: Inr c ns wr)
      have 2: ?c2 using e by simp
      have 3: ?c3 by (simp add: n)
      have 4: ?c4 by (simp add: n)
      have 5: ?c5 by (simp add: Inr)
      have 6: ?c6 by (simp add: Inr ns)
      have 7: ?c7 using r o by (simp add: Inr ns wr c)
      from 1 2 3 4 5 6 7 show ?thesis by (intro conjI)
    next
      case (Some e)
      from assms have r: "res = Some e" and o: "out = []"
        and c: "hostCalls h' = hostCalls h @ [NewStreamCall pid protocolID]"
        and n: "opened h' = opened h"
        unfolding sendMessage_not_opened [OF Inr Some] by auto
      have ns: "fst (NewStream h pid protocolID) = Inl e"
        by (simp add: NewStream_result Some)
      have "hostCalls h' = hostCalls h @ [NewStreamCall pid protocolID]
            \<and> (\<forall>s. CloseCall s \<notin> set [NewStreamCall pid protocolID])"
        by (simp add: c)
      then have e: "\<exists>calls. hostCalls h' = hostCalls h @ calls \<and> (\<forall>s. CloseCall s \<notin> set calls)" ..
      have 1: ?c1 by (simp add: r)
      have 2: ?c2 by (simp add: n)
      have 3: ?c3 using e by (simp add: n r)
      have 4: ?c4 by (simp add: n)
      have 5: ?c5 by (simp add: Inr)
      have 6: ?c6 by (simp add: Inr ns r o c)
      have 7: ?c7 by (simp add: Inr ns)
      from 1 2 3 4 5 6 7 show ?thesis by (intro conjI)
    qed
  qed
  then show ?thesis .
qed

theorem send_one_frame_and_close_witness:
  "fst (sendMessage sampleJSON sampleAddressing 7 hostB ''PEER-A'' ''hi'') = None
   \<and> hostCalls (snd (snd (sendMessage sampleJSON sampleAddressing 7 hostB ''PEER-A'' ''hi'')))
       = [NewStreamCall ''PEER-A'' ''/p2pchat/1.0.0'', WriteCall 0 (frameHi @ [CHR 0x0A]), CloseCall 0]
   \<and> fst (Write (snd (NewStream hostB ''PEER-A'' protocolID)) 0 (frameHi @ [CHR 0x0A])) = None
   \<and> fst (sendMessage sampleJSON sampleAddressing 7 hostOffline ''PEER-A'' ''hi'')
       = Some (Failure ''dial backoff'')
   \<and> hostCalls (snd (snd (sendMessage sampleJSON sampleAddressing 7 hostOffline ''PEER-A'' ''hi'')))
       = [NewStreamCall ''PEER-A'' ''/p2pchat/1.0.0'']
   \<and> fst (Write (snd (NewStream hostResetting ''PEER-A'' protocolID)) 0 (frameHi @ [CHR 0x0A]))
       = Some (Failure ''stream reset'')
   \<and> fst (sendMessage sampleJSON sampleAddressing 7 hostResetting ''PEER-A'' ''hi'')
       = Some (Failure ''stream reset'')
   \<and> hostCalls (snd (snd (sendMessage sampleJSON sampleAddressing 7 hostResetting ''PEER-A'' ''hi'')))
       = [NewStreamCall ''PEER-A'' ''/p2pchat/1.0.0'', WriteCall 0 (frameHi @ [CHR 0x0A]), CloseCall 0]"
proof -
  let ?s = "sendMessage sampleJSON sampleAddressing 7 hostB ''PEER-A'' ''hi''"
  let ?t = "sendMessage sampleJSON sampleAddressing 7 hostOffline ''PEER-A'' ''hi''"
  let ?r = "sendMessage sampleJSON sampleAddressing 7 hostResetting ''PEER-A'' ''hi''"
  have s: "?s = (fst ?s, fst (snd ?s), snd (snd ?s))" by simp
  have r: "?r = (fst ?r, fst (snd ?r), snd (snd ?r))" by simp
  have ok: "fst ?s = None"
    by (simp add: sendMessage_def host_defs sample_hosts)
  have d: "Decode sampleAddressing ''PEER-A'' = Inr ''PEER-A''"
    by (simp add: sampleAddressing_def)
  have m: "MarshalMessage sampleJSON \<lparr>From = hostID hostB, When = 7, Body = ''hi''\<rparr> = frameHi"
    "MarshalMessage sampleJSON \<lparr>From = hostID hostResetting, When = 7, Body = ''hi''\<rparr> = frameHi"
    by (simp_all add: sample_defs hostB_def hostResetting_def)
  have c: "hostCalls hostB = []" "opened hostB = 0" "hostCalls hostResetting = []"
    "opened hostResetting = 0"
    by (simp_all add: hostB_def hostResetting_def)
  have t: "fst ?t = Some (Failure ''dial backoff'')"
    "hostCalls (snd (snd ?t)) = [NewStreamCall ''PEER-A'' ''/p2pchat/1.0.0'']"
    by (simp_all add: sendMessage_def host_defs sample_hosts protocolID_def)
  have n: "fst (NewStream hostResetting ''PEER-A'' protocolID) = Inr 0"
    by (simp add: host_defs hostResetting_def hostB_def)
  have w: "fst (Write (snd (NewStream hostResetting ''PEER-A'' protocolID)) 0 (frameHi @ [CHR 0x0A]))
      = Some (Failure ''stream reset'')"
    by (simp add: host_defs hostResetting_def hostB_def)
  note sent = send_one_frame_and_close [OF s, THEN conjunct1, rule_format, OF ok]
  note reset = send_one_frame_and_close [OF r, THEN conjunct2, THEN conjunct2, THEN conjunct2,
    THEN conjunct2, THEN conjunct2, THEN conjunct2, rule_format, OF conjI [OF d n]]
  from sent obtain pid where p: "Decode sampleAddressing ''PEER-A'' = Inr pid"
    and sc: "hostCalls (snd (snd ?s)) = hostCalls hostB @
        [NewStreamCall pid protocolID,
         WriteCall (opened hostB)
           (MarshalMessage sampleJSON \<lparr>From = hostID hostB, When = 7, Body = ''hi''\<rparr> @ [CHR 0x0A]),
         CloseCall (opened hostB)]"
    and sw: "fst (Write (snd (NewStream hostB pid protocolID)) (opened hostB)
        (MarshalMessage sampleJSON \<lparr>From = hostID hostB, When = 7, Body = ''hi''\<rparr> @ [CHR 0x0A])) = None"
    by (elim exE conjE)
  from p d have pid: "pid = ''PEER-A''" by simp
  have 1: "hostCalls (snd (snd ?s))
       = [NewStreamCall ''PEER-A'' ''/p2pchat/1.0.0'', WriteCall 0 (frameHi @ [CHR 0x0A]), CloseCall 0]"
    using sc unfolding pid m c by (simp add: protocolID_def)
  have 2: "fst (Write (snd (NewStream hostB ''PEER-A'' protocolID)) 0 (frameHi @ [CHR 0x0A])) = None"
    using sw unfolding pid m c .
  have 3: "fst ?r = Some (Failure ''stream reset'')"
    using reset [THEN conjunct1] unfolding m w .
  have 4: "hostCalls (snd (snd ?r))
       = [NewStreamCall ''PEER-A'' ''/p2pchat/1.0.0'', WriteCall 0 (frameHi @ [CHR 0x0A]), CloseCall 0]"
    using reset [THEN conjunct2, THEN conjunct2] unfolding m c by (simp add: protocolID_def)
  from ok 1 2 t w 3 4 show ?thesis by (intro conjI)
qed

section \<open>Properties of the identity record\<close>

lemma loadOrCreateIdentity_existing:
  assumes "files fs path = Some f"
  shows "loadOrCreateIdentity K fs random path =
           ((case ReadFile fs path of Inl err \<Rightarrow> Inl err | Inr b \<Rightarrow> UnmarshalPrivateKey K b), fs)"
  using assms by (simp add: loadOrCreateIdentity_def Stat_def split: sum.splits)

lemma loadOrCreateIdentity_fresh:
  assumes "files fs path = None" and "GenerateKeyPair K random = Inr k"
    and "MarshalPrivateKey K k = Inr b" and "writable fs"
  shows "loadOrCreateIdentity K fs random path =
           (Inr k, fs\<lparr>files := (files fs)(path \<mapsto> \<lparr>content = b, mode = 384, readable = True\<rparr>)\<rparr>)"
  using assms by (simp add: loadOrCreateIdentity_def Stat_def WriteFile_def)

lemma loadOrCreateIdentity_created:
  assumes "files fs path = None" and "loadOrCreateIdentity K fs random path = (Inr k, fs')"
  shows "\<exists>b. MarshalPrivateKey K k = Inr b
           \<and> fs' = fs\<lparr>files := (files fs)(path \<mapsto> \<lparr>content = b, mode = 384, readable = True\<rparr>)\<rparr>"
  using assms
  by (auto simp add: loadOrCreateIdentity_def Stat_def WriteFile_def
      split: sum.splits if_splits option.splits)

text \<open>
  C9. When a record exists at the path, \<^verbatim>\<open>loadOrCreateIdentity\<close> reads and deserializes
  it: its result does not depend on the random source and the file system is left as it
  is, so no key is generated. When no record exists, a key is generated, serialized and
  written to the path with permission bits \<open>0600\<close>. A run that follows a successful run
  on the same path returns the same key, hence the same peer identifier, provided the
  key library deserializes what it serialized.
\<close>

theorem identity_is_stable:
  "(\<forall>f random'. files fs path = Some f \<longrightarrow>
      loadOrCreateIdentity K fs random path
        = ((case ReadFile fs path of Inl err \<Rightarrow> Inl err | Inr b \<Rightarrow> UnmarshalPrivateKey K b), fs)
      \<and> loadOrCreateIdentity K fs random' path = loadOrCreateIdentity K fs random path)
   \<and> (\<forall>k b. files fs path = None \<and> GenerateKeyPair K random = Inr k
         \<and> MarshalPrivateKey K k = Inr b \<and> writable fs \<longrightarrow>
         loadOrCreateIdentity K fs random path
           = (Inr k, fs\<lparr>files := (files fs)(path \<mapsto> \<lparr>content = b, mode = 384, readable = True\<rparr>)\<rparr>))
   \<and> (\<forall>k fs' random'.
         loadOrCreateIdentity K fs random path = (Inr k, fs')
         \<and> (\<forall>b. MarshalPrivateKey K k = Inr b \<longrightarrow> UnmarshalPrivateKey K b = Inr k) \<longrightarrow>
         loadOrCreateIdentity K fs' random' path = (Inr k, fs')
         \<and> (\<forall>k'. fst (loadOrCreateIdentity K fs' random' path) = Inr k' \<longrightarrow>
                IDFromPrivateKey K k' = IDFromPrivateKey K k))"
proof (intro conjI allI impI)
  fix f random'
  assume "files fs path = Some f"
  then show "loadOrCreateIdentity K fs random path
        = ((case ReadFile fs path of Inl err \<Rightarrow> Inl err | Inr b \<Rightarrow> UnmarshalPrivateKey K b), fs)"
    and "loadOrCreateIdentity K fs random' path = loadOrCreateIdentity K fs random path"
    by (simp_all add: loadOrCreateIdentity_existing)
next
  fix k b
  assume "files fs path = None \<and> GenerateKeyPair K random = Inr k
         \<and> MarshalPrivateKey K k = Inr b \<and> writable fs"
  then show "loadOrCreateIdentity K fs random path
           = (Inr k, fs\<lparr>files := (files fs)(path \<mapsto> \<lparr>content = b, mode = 384, readable = True\<rparr>)\<rparr>)"
    by (simp add: loadOrCreateIdentity_fresh)
next
  fix k fs' random'
  assume a: "loadOrCreateIdentity K fs random path = (Inr k, fs')
         \<and> (\<forall>b. MarshalPrivateKey K k = Inr b \<longrightarrow> UnmarshalPrivateKey K b = Inr k)"
  from a have run: "loadOrCreateIdentity K fs random path = (Inr k, fs')"
    by (rule conjunct1)
  from a have law: "\<forall>b. MarshalPrivateKey K k = Inr b \<longrightarrow> UnmarshalPrivateKey K b = Inr k"
    by (rule conjunct2)
  have again: "loadOrCreateIdentity K fs' random' path = (Inr k, fs')"
  proof (cases "files fs path")
    case None
    from loadOrCreateIdentity_created [OF None run] obtain b where b: "MarshalPrivateKey K k = Inr b"
      and fs': "fs' = fs\<lparr>files := (files fs)(path \<mapsto> \<lparr>content = b, mode = 384, readable = True\<rparr>)\<rparr>"
      by (elim exE conjE)
    from law b have u: "UnmarshalPrivateKey K b = Inr k" by simp
    have f: "files fs' path = Some \<lparr>content = b, mode = 384, readable = True\<rparr>"
      unfolding fs' by simp
    have r: "ReadFile fs' path = Inr b"
      by (simp add: ReadFile_def f)
    show ?thesis
      unfolding loadOrCreateIdentity_existing [OF f] r by (simp add: u)
  next
    case (Some f)
    from run have e: "((case ReadFile fs path of Inl err \<Rightarrow> Inl err | Inr b \<Rightarrow> UnmarshalPrivateKey K b), fs)
        = (Inr k, fs')"
      unfolding loadOrCreateIdentity_existing [OF Some] .
    then have same: "fs' = fs" by simp
    from e show ?thesis
      unfolding same loadOrCreateIdentity_existing [OF Some] .
  qed
  then show "loadOrCreateIdentity K fs' random' path = (Inr k, fs')" .
  fix k'
  assume "fst (loadOrCreateIdentity K fs' random' path) = Inr k'"
  with again show "IDFromPrivateKey K k' = IDFromPrivateKey K k" by simp
qed

theorem identity_is_stable_witness:
  "files emptyDisk identityFile = None
   \<and> loadOrCreateIdentity sampleCrypto emptyDisk ''abcdefgh'' identityFile
       = (Inr ''abcd'', emptyDisk\<lparr>files := [identityFile \<mapsto>
            \<lparr>content = ''key:abcd'', mode = 384, readable = True\<rparr>]\<rparr>)
   \<and> loadOrCreateIdentity sampleCrypto
        (emptyDisk\<lparr>files := [identityFile \<mapsto> \<lparr>content = ''key:abcd'', mode = 384, readable = True\<rparr>]\<rparr>)
        ''zyxwvuts'' identityFile
       = (Inr ''abcd'', emptyDisk\<lparr>files := [identityFile \<mapsto>
            \<lparr>content = ''key:abcd'', mode = 384, readable = True\<rparr>]\<rparr>)"
proof -
  let ?fs' = "emptyDisk\<lparr>files := [identityFile \<mapsto> \<lparr>content = ''key:abcd'', mode = 384, readable = True\<rparr>]\<rparr>"
  have n: "files emptyDisk identityFile = None" by (simp add: emptyDisk_def)
  have g: "GenerateKeyPair sampleCrypto ''abcdefgh'' = Inr ''abcd''"
    and m: "MarshalPrivateKey sampleCrypto ''abcd'' = Inr ''key:abcd''"
    and w: "writable emptyDisk"
    by (simp_all add: sampleCrypto_def emptyDisk_def)
  have law: "\<forall>b. MarshalPrivateKey sampleCrypto ''abcd'' = Inr b \<longrightarrow> UnmarshalPrivateKey sampleCrypto b = Inr ''abcd''"
    by (auto simp add: sampleCrypto_def)
  note t = identity_is_stable [of emptyDisk identityFile sampleCrypto "''abcdefgh''"]
  note fresh = t [THEN conjunct2, THEN conjunct1, rule_format]
  note again = t [THEN conjunct2, THEN conjunct2, rule_format, THEN conjunct1]
  have e: "files emptyDisk = Map.empty" by (simp add: emptyDisk_def)
  have 1: "loadOrCreateIdentity sampleCrypto emptyDisk ''abcdefgh'' identityFile = (Inr ''abcd'', ?fs')"
    using fresh [OF conjI [OF n conjI [OF g conjI [OF m w]]]] unfolding e .
  have 2: "loadOrCreateIdentity sampleCrypto ?fs' ''zyxwvuts'' identityFile = (Inr ''abcd'', ?fs')"
    by (rule again [OF conjI [OF 1 law]])
  from n 1 2 show ?thesis by (intro conjI)
qed

end
